theory Spec2Isabelle
  imports Main "HOL-Library.Multiset"
begin

section \<open>Errors and strings\<close>

text \<open>
  The exceptions the JavaScript code can meet, as values. \<open>PgError\<close> is an error thrown
  by \<^verbatim>\<open>pool.query\<close> and carries the SQLSTATE code that \<^verbatim>\<open>errorHandler\<close> inspects;
  \<open>JsError\<close> is \<^verbatim>\<open>new Error(message)\<close>; \<open>RedisError\<close> is thrown by a Redis command;
  \<open>ApiError\<close> is thrown by the Gemini client (timeout, rate limit, service error);
  \<open>SyntaxError\<close> is thrown by \<^verbatim>\<open>JSON.parse\<close>.
\<close>

datatype error =
    PgError string
  | JsError string
  | RedisError string
  | ApiError string
  | SyntaxError string

definition nl :: string where
  "nl = [CHR 0x0A]"

text \<open>\<^verbatim>\<open>Array.prototype.join\<close> on strings.\<close>

fun join :: "string \<Rightarrow> string list \<Rightarrow> string" where
  "join sep [] = []"
| "join sep [x] = x"
| "join sep (x # y # ys) = x @ sep @ join sep (y # ys)"

text \<open>\<^verbatim>\<open>String.prototype.trim\<close>, on the ASCII white space characters.\<close>

definition is_space :: "char \<Rightarrow> bool" where
  "is_space c = (c = CHR '' '' \<or> c = CHR 0x09 \<or> c = CHR 0x0A \<or> c = CHR 0x0B
                 \<or> c = CHR 0x0C \<or> c = CHR 0x0D)"

definition trim :: "string \<Rightarrow> string" where
  "trim s = rev (dropWhile is_space (rev (dropWhile is_space s)))"

text \<open>Decimal rendering of a number inside a template literal.\<close>

fun string_of_nat :: "nat \<Rightarrow> string" where
  "string_of_nat n =
     (if n < 10 then [char_of (48 + n)]
      else string_of_nat (n div 10) @ [char_of (48 + n mod 10)])"

declare string_of_nat.simps [simp del]

definition string_of_int :: "int \<Rightarrow> string" where
  "string_of_int i = (if i < 0 then CHR ''-'' # string_of_nat (nat (- i)) else string_of_nat (nat i))"

section \<open>The relational store\<close>

text \<open>
  The tables of \<^verbatim>\<open>models/schema.js\<close> that the chatroom routes and the job processor
  touch. \<open>status\<close> and \<open>message_type\<close> are the string values the code writes.
\<close>

datatype message_type = User | Ai

datatype status = Pending | Processing | Completed | Failed

record message =
  msg_id :: int
  msg_chatroom_id :: int
  msg_user_id :: int
  msg_content :: string
  msg_message_type :: message_type
  msg_gemini_response :: "string option"
  msg_status :: status
  msg_created_at :: nat
  msg_updated_at :: nat

record chatroom =
  room_id :: int
  room_user_id :: int
  room_title :: string
  room_description :: "string option"
  room_created_at :: nat
  room_updated_at :: nat

record user_row =
  usr_id :: int
  usr_daily_usage_count :: nat

text \<open>
  The connection pool with the database behind it. \<open>now\<close> is the database clock
  (\<^verbatim>\<open>CURRENT_TIMESTAMP\<close>); \<open>faults\<close> is the schedule of failures of the coming queries:
  each call of \<^verbatim>\<open>pool.query\<close> consumes the head, and \<open>Some e\<close> makes that call throw
  \<open>e\<close> without touching the tables. An empty schedule is a store that answers.
\<close>

record pool =
  messages :: "message list"
  chatrooms :: "chatroom list"
  users :: "user_row list"
  next_message_id :: int
  next_chatroom_id :: int
  now :: nat
  faults :: "error option list"

text \<open>\<^verbatim>\<open>await pool.query(statement)\<close>: the thrown error or the rows, and the store afterwards.\<close>

definition query :: "(pool \<Rightarrow> 'r \<times> pool) \<Rightarrow> pool \<Rightarrow> (error + 'r) \<times> pool" where
  "query stmt p =
     (case faults p of
        [] \<Rightarrow> (case stmt p of (r, p') \<Rightarrow> (Inr r, p'\<lparr>now := Suc (now p')\<rparr>))
      | None # fs \<Rightarrow>
          (case stmt (p\<lparr>faults := fs\<rparr>) of (r, p') \<Rightarrow> (Inr r, p'\<lparr>now := Suc (now p')\<rparr>))
      | Some e # fs \<Rightarrow> (Inl e, p\<lparr>faults := fs\<rparr>))"

subsection \<open>The statements of the job processor\<close>

text \<open>\<^verbatim>\<open>UPDATE messages SET status = 'processing' WHERE id = $2\<close>\<close>

definition update_processing :: "int \<Rightarrow> pool \<Rightarrow> unit \<times> pool" where
  "update_processing mid p =
     ((), p\<lparr>messages :=
        map (\<lambda>m. if msg_id m = mid then m\<lparr>msg_status := Processing\<rparr> else m) (messages p)\<rparr>)"

text \<open>
  \<^verbatim>\<open>UPDATE messages SET gemini_response = $1, content = $2, status = 'completed',
  updated_at = CURRENT_TIMESTAMP WHERE id = $4\<close>
\<close>

definition update_completed :: "string \<Rightarrow> int \<Rightarrow> pool \<Rightarrow> unit \<times> pool" where
  "update_completed geminiResponse mid p =
     ((), p\<lparr>messages :=
        map (\<lambda>m. if msg_id m = mid
                  then m\<lparr>msg_gemini_response := Some geminiResponse,
                         msg_content := geminiResponse,
                         msg_status := Completed,
                         msg_updated_at := now p\<rparr>
                  else m) (messages p)\<rparr>)"

definition failed_text :: string where
  "failed_text = ''Sorry, I encountered an error processing your request. Please try again.''"

text \<open>
  \<^verbatim>\<open>UPDATE messages SET status = 'failed', content = 'Sorry, ...',
  updated_at = CURRENT_TIMESTAMP WHERE id = $3\<close>
\<close>

definition update_failed :: "int \<Rightarrow> pool \<Rightarrow> unit \<times> pool" where
  "update_failed mid p =
     ((), p\<lparr>messages :=
        map (\<lambda>m. if msg_id m = mid
                  then m\<lparr>msg_content := failed_text,
                         msg_status := Failed,
                         msg_updated_at := now p\<rparr>
                  else m) (messages p)\<rparr>)"

text \<open>
  \<^verbatim>\<open>SELECT content, message_type, created_at FROM messages
  WHERE chatroom_id = $1 AND status = 'completed' ORDER BY created_at DESC LIMIT 10\<close>.
  Rows with equal \<open>created_at\<close> come in the order of a stable sort, one of the orders the
  database may choose.
\<close>

record history_row =
  h_content :: string
  h_message_type :: message_type
  h_created_at :: nat

definition history_row_of :: "message \<Rightarrow> history_row" where
  "history_row_of m =
     \<lparr>h_content = msg_content m, h_message_type = msg_message_type m,
      h_created_at = msg_created_at m\<rparr>"

definition order_by_created_at_desc :: "message list \<Rightarrow> message list" where
  "order_by_created_at_desc ms = rev (sort_key msg_created_at ms)"

definition completed_in :: "int \<Rightarrow> message \<Rightarrow> bool" where
  "completed_in cid m = (msg_chatroom_id m = cid \<and> msg_status m = Completed)"

definition recent_completed :: "int \<Rightarrow> pool \<Rightarrow> message list" where
  "recent_completed cid p =
     take 10 (order_by_created_at_desc (filter (completed_in cid) (messages p)))"

definition select_history :: "int \<Rightarrow> pool \<Rightarrow> history_row list \<times> pool" where
  "select_history cid p = (map history_row_of (recent_completed cid p), p)"

section \<open>services/geminiService.js\<close>

text \<open>
  The Generation Collaborator, \<^verbatim>\<open>model.generateContent(prompt)\<close> followed by
  \<^verbatim>\<open>response.text()\<close>, is a parameter: from the prompt to the text or the error thrown.
\<close>

type_synonym gemini = "string \<Rightarrow> error + string"

definition apology_text :: string where
  "apology_text =
     ''I apologize, but I encountered an error while processing your request. Please try again later.''"

definition history_line :: "history_row \<Rightarrow> string" where
  "history_line msg =
     (if h_message_type msg = User then ''User'' else ''Assistant'') @ '': '' @ h_content msg"

definition build_prompt :: "string \<Rightarrow> history_row list \<Rightarrow> string" where
  "build_prompt userMessage conversationHistory =
     (if length conversationHistory > 0
      then ''Previous conversation:'' @ nl @ join nl (map history_line conversationHistory)
           @ nl @ nl @ ''User: '' @ userMessage
      else userMessage)"

text \<open>\<open>generateResponse\<close>: the \<^verbatim>\<open>catch\<close> turns every error of the client into the apology.\<close>

definition generateResponse :: "gemini \<Rightarrow> string \<Rightarrow> history_row list \<Rightarrow> string" where
  "generateResponse g userMessage conversationHistory =
     (case g (build_prompt userMessage conversationHistory) of
        Inr text \<Rightarrow> text
      | Inl e \<Rightarrow> apology_text)"

text \<open>
  \<open>generateResponseWithContext\<close>: the history query, reversed into chronological
  order; when the query throws, the \<^verbatim>\<open>catch\<close> generates without context.
\<close>

definition generateResponseWithContext ::
    "gemini \<Rightarrow> string \<Rightarrow> int \<Rightarrow> pool \<Rightarrow> string \<times> pool" where
  "generateResponseWithContext g userMessage cid p =
     (case query (select_history cid) p of
        (Inr rows, p') \<Rightarrow> (generateResponse g userMessage (rev rows), p')
      | (Inl e, p') \<Rightarrow> (generateResponse g userMessage [], p'))"

section \<open>jobs/geminiQueue.js: the job processor\<close>

record job_data =
  messageId :: int
  chatroomId :: int
  userId :: int
  userMessage :: string

record job_result =
  success :: bool
  result_messageId :: int
  response :: string

text \<open>
  The \<^verbatim>\<open>catch\<close> block of \<open>processGeminiJob\<close>: write the failed state, then rethrow. An
  error of the write itself replaces the one being handled.
\<close>

definition job_catch :: "error \<Rightarrow> int \<Rightarrow> pool \<Rightarrow> (error + job_result) \<times> pool" where
  "job_catch e mid p =
     (case query (update_failed mid) p of
        (Inl e', p') \<Rightarrow> (Inl e', p')
      | (Inr _, p') \<Rightarrow> (Inl e, p'))"

definition processGeminiJob :: "gemini \<Rightarrow> job_data \<Rightarrow> pool \<Rightarrow> (error + job_result) \<times> pool" where
  "processGeminiJob g d p =
     (case query (update_processing (messageId d)) p of
        (Inl e, p1) \<Rightarrow> job_catch e (messageId d) p1
      | (Inr _, p1) \<Rightarrow>
          (case generateResponseWithContext g (userMessage d) (chatroomId d) p1 of
             (geminiResponse, p2) \<Rightarrow>
               (case query (update_completed geminiResponse (messageId d)) p2 of
                  (Inl e, p3) \<Rightarrow> job_catch e (messageId d) p3
                | (Inr _, p3) \<Rightarrow>
                    (Inr \<lparr>success = True, result_messageId = messageId d,
                          response = geminiResponse\<rparr>, p3))))"

section \<open>services/cacheService.js\<close>

text \<open>
  The Redis client of \<^verbatim>\<open>config/redis.js\<close>: the keys with their values and time to live
  in seconds, and the schedule of failures of the coming commands, as for the store.
  The module variable \<^verbatim>\<open>redis\<close> is \<open>None\<close> until \<^verbatim>\<open>initializeRedis\<close> has run.
\<close>

record redis_client =
  kv :: "string \<rightharpoonup> string \<times> nat"
  redis_faults :: "error option list"

definition getRedis :: "redis_client option \<Rightarrow> error + redis_client" where
  "getRedis redis =
     (case redis of None \<Rightarrow> Inl (JsError ''Redis not initialized'') | Some r \<Rightarrow> Inr r)"

definition command :: "(redis_client \<Rightarrow> 'r \<times> redis_client) \<Rightarrow> redis_client
    \<Rightarrow> (error + 'r) \<times> redis_client" where
  "command cmd r =
     (case redis_faults r of
        [] \<Rightarrow> (case cmd r of (x, r') \<Rightarrow> (Inr x, r'))
      | None # fs \<Rightarrow> (case cmd (r\<lparr>redis_faults := fs\<rparr>) of (x, r') \<Rightarrow> (Inr x, r'))
      | Some e # fs \<Rightarrow> (Inl e, r\<lparr>redis_faults := fs\<rparr>))"

definition redis_get :: "string \<Rightarrow> redis_client \<Rightarrow> string option \<times> redis_client" where
  "redis_get key r = (map_option fst (kv r key), r)"

definition redis_setex :: "string \<Rightarrow> nat \<Rightarrow> string \<Rightarrow> redis_client \<Rightarrow> unit \<times> redis_client" where
  "redis_setex key ttl v r = ((), r\<lparr>kv := (kv r)(key \<mapsto> (v, ttl))\<rparr>)"

definition redis_del :: "string \<Rightarrow> redis_client \<Rightarrow> nat \<times> redis_client" where
  "redis_del key r = ((if kv r key = None then 0 else 1), r\<lparr>kv := (kv r)(key := None)\<rparr>)"

text \<open>The values \<^verbatim>\<open>JSON.parse\<close> returns; \<open>JNull\<close> is JavaScript's \<^verbatim>\<open>null\<close>.\<close>

datatype json =
    JNull
  | JBool bool
  | JNum int
  | JStr string
  | JArr "json list"
  | JObj "(string \<times> json) list"

definition CHATROOM_CACHE_KEY :: string where
  "CHATROOM_CACHE_KEY = ''chatrooms:user:''"

definition CACHE_TTL :: nat where
  "CACHE_TTL = 300"

definition chatroom_key :: "int \<Rightarrow> string" where
  "chatroom_key uid = CHATROOM_CACHE_KEY @ string_of_int uid"

text \<open>
  Each function is the body of its \<^verbatim>\<open>try\<close>, which may throw, under its \<^verbatim>\<open>catch\<close>.
  \<^verbatim>\<open>JSON.parse\<close> and \<^verbatim>\<open>JSON.stringify\<close> are parameters.
\<close>

definition getCachedChatrooms_try :: "(string \<Rightarrow> error + json) \<Rightarrow> redis_client option \<Rightarrow> int
    \<Rightarrow> (error + json) \<times> redis_client option" where
  "getCachedChatrooms_try parse redis uid =
     (case getRedis redis of
        Inl e \<Rightarrow> (Inl e, redis)
      | Inr r \<Rightarrow>
          (case command (redis_get (chatroom_key uid)) r of
             (Inl e, r') \<Rightarrow> (Inl e, Some r')
           | (Inr cachedData, r') \<Rightarrow>
               (case cachedData of
                  None \<Rightarrow> (Inr JNull, Some r')
                | Some s \<Rightarrow> (if s = [] then (Inr JNull, Some r') else (parse s, Some r')))))"

definition getCachedChatrooms :: "(string \<Rightarrow> error + json) \<Rightarrow> redis_client option \<Rightarrow> int
    \<Rightarrow> (error + json) \<times> redis_client option" where
  "getCachedChatrooms parse redis uid =
     (case getCachedChatrooms_try parse redis uid of
        (Inl e, redis') \<Rightarrow> (Inr JNull, redis')
      | (Inr v, redis') \<Rightarrow> (Inr v, redis'))"

definition setCachedChatrooms_try :: "(json \<Rightarrow> error + string) \<Rightarrow> redis_client option \<Rightarrow> int
    \<Rightarrow> json \<Rightarrow> nat \<Rightarrow> (error + unit) \<times> redis_client option" where
  "setCachedChatrooms_try stringify redis uid rooms ttl =
     (case getRedis redis of
        Inl e \<Rightarrow> (Inl e, redis)
      | Inr r \<Rightarrow>
          (case stringify rooms of
             Inl e \<Rightarrow> (Inl e, Some r)
           | Inr s \<Rightarrow>
               (case command (redis_setex (chatroom_key uid) ttl s) r of
                  (Inl e, r') \<Rightarrow> (Inl e, Some r')
                | (Inr _, r') \<Rightarrow> (Inr (), Some r'))))"

definition setCachedChatrooms :: "(json \<Rightarrow> error + string) \<Rightarrow> redis_client option \<Rightarrow> int
    \<Rightarrow> json \<Rightarrow> nat \<Rightarrow> (error + unit) \<times> redis_client option" where
  "setCachedChatrooms stringify redis uid rooms ttl =
     (case setCachedChatrooms_try stringify redis uid rooms ttl of
        (Inl e, redis') \<Rightarrow> (Inr (), redis')
      | (Inr u, redis') \<Rightarrow> (Inr u, redis'))"

definition clearChatroomCache_try :: "redis_client option \<Rightarrow> int
    \<Rightarrow> (error + unit) \<times> redis_client option" where
  "clearChatroomCache_try redis uid =
     (case getRedis redis of
        Inl e \<Rightarrow> (Inl e, redis)
      | Inr r \<Rightarrow>
          (case command (redis_del (chatroom_key uid)) r of
             (Inl e, r') \<Rightarrow> (Inl e, Some r')
           | (Inr _, r') \<Rightarrow> (Inr (), Some r')))"

definition clearChatroomCache :: "redis_client option \<Rightarrow> int
    \<Rightarrow> (error + unit) \<times> redis_client option" where
  "clearChatroomCache redis uid =
     (case clearChatroomCache_try redis uid of
        (Inl e, redis') \<Rightarrow> (Inr (), redis')
      | (Inr u, redis') \<Rightarrow> (Inr u, redis'))"

text \<open>Whether the client, at this moment, would answer its next command.\<close>

definition redis_answers :: "redis_client option \<Rightarrow> bool" where
  "redis_answers redis =
     (case redis of
        None \<Rightarrow> False
      | Some r \<Rightarrow> (case redis_faults r of Some e # fs \<Rightarrow> False | _ \<Rightarrow> True))"

definition cached :: "redis_client option \<Rightarrow> string \<Rightarrow> string option" where
  "cached redis key = (case redis of None \<Rightarrow> None | Some r \<Rightarrow> map_option fst (kv r key))"

section \<open>jobs/geminiQueue.js: the queue\<close>

subsection \<open>The options of \<open>initializeGeminiQueue\<close>\<close>

text \<open>
  The object literals as written, key by key in source order. A JavaScript object
  literal that repeats a key keeps the last value, which is what \<open>js_get\<close> reads.
\<close>

datatype js_value = Num nat | Str string | Obj "(string \<times> js_value) list"

definition js_get :: "(string \<times> js_value) list \<Rightarrow> string \<Rightarrow> js_value option" where
  "js_get kvs k = map_of (rev kvs) k"

definition defaultJobOptions :: "(string \<times> js_value) list" where
  "defaultJobOptions =
     [(''removeOnComplete'', Num 100),
      (''removeOnFail'', Num 50),
      (''attempts'', Num 3),
      (''backoff'', Obj [(''type'', Str ''exponential''), (''delay'', Num 1000)]),
      (''timeout'', Num 30000),
      (''backoff'', Obj [(''type'', Str ''exponential''), (''delay'', Num 2000)])]"

definition workerOptions :: "(string \<times> js_value) list" where
  "workerOptions =
     [(''concurrency'', Num 2),
      (''lockDuration'', Num 30000),
      (''stalledInterval'', Num 15000),
      (''maxStalledCount'', Num 2),
      (''lockRenewTime'', Num 15000),
      (''drainDelay'', Num 5000)]"

definition js_path :: "(string \<times> js_value) list \<Rightarrow> string \<Rightarrow> string \<Rightarrow> js_value option" where
  "js_path kvs k1 k2 =
     (case js_get kvs k1 of Some (Obj inner) \<Rightarrow> js_get inner k2 | _ \<Rightarrow> None)"

subsection \<open>The queue object and the worker\<close>

record job =
  job_id :: string
  data :: job_data

text \<open>
  Modelled from the spec: the durable queue and its worker pool are the BullMQ library,
  which is not among the sources. Following the spec's Durable Queue and Worker Pool,
  \<open>add\<close> appends the job to the waiting list and returns it with a fresh id, without
  running it; the listing calls return the jobs by state; every call may fail when the
  backend is unreachable (\<open>q_faults\<close>, a schedule as for the store); the worker takes
  the oldest waiting job, runs the job processor on it, and runs it again when it throws
  until the configured number of attempts is used up. Priorities, delays, leases and
  stalls are left out: every job is added with the same priority and no delay.
\<close>

record bull_queue =
  q_waiting :: "job list"
  q_active :: "job list"
  q_completed :: "job list"
  q_failed :: "job list"
  q_next_id :: nat
  q_faults :: "error option list"

definition queue_call :: "(bull_queue \<Rightarrow> 'r \<times> bull_queue) \<Rightarrow> bull_queue
    \<Rightarrow> (error + 'r) \<times> bull_queue" where
  "queue_call f q =
     (case q_faults q of
        [] \<Rightarrow> (case f q of (x, q') \<Rightarrow> (Inr x, q'))
      | None # fs \<Rightarrow> (case f (q\<lparr>q_faults := fs\<rparr>) of (x, q') \<Rightarrow> (Inr x, q'))
      | Some e # fs \<Rightarrow> (Inl e, q\<lparr>q_faults := fs\<rparr>))"

definition bull_add :: "job_data \<Rightarrow> bull_queue \<Rightarrow> job \<times> bull_queue" where
  "bull_add d q =
     (let j = \<lparr>job_id = string_of_nat (q_next_id q), data = d\<rparr>
      in (j, q\<lparr>q_waiting := q_waiting q @ [j], q_next_id := Suc (q_next_id q)\<rparr>))"

text \<open>
  The module variable \<^verbatim>\<open>geminiQueue\<close>: the BullMQ queue, or the object that
  \<open>createMockQueue\<close> builds, whose listing calls return the empty array.
\<close>

datatype queue = Durable bull_queue | MockQueue

definition list_jobs :: "(bull_queue \<Rightarrow> job list) \<Rightarrow> queue \<Rightarrow> (error + job list) \<times> queue" where
  "list_jobs sel q =
     (case q of
        MockQueue \<Rightarrow> (Inr [], MockQueue)
      | Durable b \<Rightarrow> (case queue_call (\<lambda>b. (sel b, b)) b of (r, b') \<Rightarrow> (r, Durable b')))"

definition getWaiting :: "queue \<Rightarrow> (error + job list) \<times> queue" where
  "getWaiting = list_jobs q_waiting"

definition getActive :: "queue \<Rightarrow> (error + job list) \<times> queue" where
  "getActive = list_jobs q_active"

definition getCompleted :: "queue \<Rightarrow> (error + job list) \<times> queue" where
  "getCompleted = list_jobs q_completed"

definition getFailed :: "queue \<Rightarrow> (error + job list) \<times> queue" where
  "getFailed = list_jobs q_failed"

record queue_stats =
  waiting :: nat
  active :: nat
  completed :: nat
  failed :: nat
  total :: nat

definition getQueueStats_try :: "queue option \<Rightarrow> (error + queue_stats) \<times> queue option" where
  "getQueueStats_try gq =
     (case gq of
        None \<Rightarrow> (Inl (JsError ''Gemini queue not initialized''), None)
      | Some q \<Rightarrow>
          (case getWaiting q of
             (Inl e, q1) \<Rightarrow> (Inl e, Some q1)
           | (Inr ws, q1) \<Rightarrow>
          (case getActive q1 of
             (Inl e, q2) \<Rightarrow> (Inl e, Some q2)
           | (Inr as, q2) \<Rightarrow>
          (case getCompleted q2 of
             (Inl e, q3) \<Rightarrow> (Inl e, Some q3)
           | (Inr cs, q3) \<Rightarrow>
          (case getFailed q3 of
             (Inl e, q4) \<Rightarrow> (Inl e, Some q4)
           | (Inr fs, q4) \<Rightarrow>
               (Inr \<lparr>waiting = length ws, active = length as, completed = length cs,
                     failed = length fs,
                     total = length ws + length as + length cs + length fs\<rparr>, Some q4))))))"

definition zero_stats :: queue_stats where
  "zero_stats = \<lparr>waiting = 0, active = 0, completed = 0, failed = 0, total = 0\<rparr>"

definition getQueueStats :: "queue option \<Rightarrow> (error + queue_stats) \<times> queue option" where
  "getQueueStats gq =
     (case getQueueStats_try gq of
        (Inl e, gq') \<Rightarrow> (Inr zero_stats, gq')
      | (Inr s, gq') \<Rightarrow> (Inr s, gq'))"

section \<open>The process: store, cache, queue and the HTTP exchange\<close>

text \<open>
  \<open>Respond c\<close>: the handler sends a response with status \<open>c\<close>. \<open>CacheCleared u\<close>: a call
  \<^verbatim>\<open>await clearChatroomCache(u)\<close> has returned. \<open>clock\<close> is \<^verbatim>\<open>Date.now()\<close>.
\<close>

datatype event = Respond nat | CacheCleared int

record world =
  pool :: pool
  redis :: "redis_client option"
  geminiQueue :: "queue option"
  clock :: nat
  events :: "event list"

text \<open>
  The mock's \<open>add\<close> runs the job processor before it returns and rethrows what the
  processor throws; its job id is \<^verbatim>\<open>Date.now().toString()\<close>.
\<close>

definition mock_add :: "gemini \<Rightarrow> job_data \<Rightarrow> world \<Rightarrow> (error + job) \<times> world" where
  "mock_add g d w =
     (case processGeminiJob g d (pool w) of
        (Inl e, p') \<Rightarrow> (Inl e, w\<lparr>pool := p'\<rparr>)
      | (Inr _, p') \<Rightarrow> (Inr \<lparr>job_id = string_of_nat (clock w), data = d\<rparr>, w\<lparr>pool := p'\<rparr>))"

definition queue_add :: "gemini \<Rightarrow> queue \<Rightarrow> job_data \<Rightarrow> world \<Rightarrow> (error + job) \<times> world" where
  "queue_add g q d w =
     (case q of
        MockQueue \<Rightarrow> mock_add g d w
      | Durable b \<Rightarrow>
          (case queue_call (bull_add d) b of
             (r, b') \<Rightarrow> (r, w\<lparr>geminiQueue := Some (Durable b')\<rparr>)))"

text \<open>\<open>addGeminiJob\<close>: its \<^verbatim>\<open>catch\<close> logs and rethrows.\<close>

definition addGeminiJob :: "gemini \<Rightarrow> job_data \<Rightarrow> world \<Rightarrow> (error + job) \<times> world" where
  "addGeminiJob g jobData w =
     (case geminiQueue w of
        None \<Rightarrow> (Inl (JsError ''Gemini queue not initialized''), w)
      | Some q \<Rightarrow> queue_add g q jobData w)"

text \<open>
  Modelled from the spec: the worker of the BullMQ library on one job, with the spec's
  retry rule (run again while the job body throws and attempts remain): the result of the
  last attempt, the number of attempts made and the store afterwards, for a job that may
  still be retried \<open>k\<close> times. \<open>worker_run\<close> takes the oldest waiting job and files it
  under completed or failed.
\<close>

fun run_job :: "nat \<Rightarrow> gemini \<Rightarrow> job_data \<Rightarrow> pool \<Rightarrow> (error + job_result) \<times> nat \<times> pool" where
  "run_job 0 g d p = (case processGeminiJob g d p of (r, p') \<Rightarrow> (r, 1, p'))"
| "run_job (Suc k) g d p =
     (case processGeminiJob g d p of
        (Inr r, p') \<Rightarrow> (Inr r, 1, p')
      | (Inl e, p') \<Rightarrow> (case run_job k g d p' of (r, a, p'') \<Rightarrow> (r, Suc a, p'')))"

definition job_attempts :: nat where
  "job_attempts = (case js_get defaultJobOptions ''attempts'' of Some (Num n) \<Rightarrow> n | _ \<Rightarrow> 1)"

definition worker_run :: "gemini \<Rightarrow> world \<Rightarrow> world" where
  "worker_run g w =
     (case geminiQueue w of
        Some (Durable b) \<Rightarrow>
          (case q_waiting b of
             [] \<Rightarrow> w
           | j # js \<Rightarrow>
               (case run_job (job_attempts - 1) g (data j) (pool w) of
                  (Inr r, a, p') \<Rightarrow>
                    w\<lparr>pool := p',
                      geminiQueue := Some (Durable (b\<lparr>q_waiting := js,
                                                      q_completed := q_completed b @ [j]\<rparr>))\<rparr>
                | (Inl e, a, p') \<Rightarrow>
                    w\<lparr>pool := p',
                      geminiQueue := Some (Durable (b\<lparr>q_waiting := js,
                                                      q_failed := q_failed b @ [j]\<rparr>))\<rparr>))
      | _ \<Rightarrow> w)"

section \<open>middleware/errorHandler.js\<close>

text \<open>
  The status \<open>errorHandler\<close> answers with, on the errors above: none of them has a
  \<^verbatim>\<open>name\<close> the handler knows, a \<^verbatim>\<open>type\<close>, a \<^verbatim>\<open>statusCode\<close> or a \<^verbatim>\<open>status\<close>; an
  error of the store has its \<^verbatim>\<open>code\<close>.
\<close>

definition error_status :: "error \<Rightarrow> nat" where
  "error_status e =
     (case e of
        PgError code \<Rightarrow>
          (if code = ''23505'' then 409 else if code = ''23503'' then 400 else 500)
      | _ \<Rightarrow> 500)"

definition respond :: "nat \<Rightarrow> world \<Rightarrow> world" where
  "respond code w = w\<lparr>events := events w @ [Respond code]\<rparr>"

text \<open>\<^verbatim>\<open>next(error)\<close>, which reaches \<open>errorHandler\<close>.\<close>

definition next_error :: "error \<Rightarrow> world \<Rightarrow> world" where
  "next_error e w = respond (error_status e) w"

text \<open>
  What the caller receives is the first response sent; a later attempt to send on the
  same exchange fails.
\<close>

fun first_response :: "event list \<Rightarrow> nat option" where
  "first_response [] = None"
| "first_response (Respond c # es) = Some c"
| "first_response (CacheCleared u # es) = first_response es"

definition is_success :: "nat \<Rightarrow> bool" where
  "is_success c = (200 \<le> c \<and> c < 300)"

text \<open>Every success response of the trace comes after a cache clear for the user.\<close>

fun cleared_before_success :: "int \<Rightarrow> event list \<Rightarrow> bool" where
  "cleared_before_success uid [] = True"
| "cleared_before_success uid (CacheCleared u # es) = (u = uid \<or> cleared_before_success uid es)"
| "cleared_before_success uid (Respond c # es) = (\<not> is_success c \<and> cleared_before_success uid es)"

section \<open>routes/chatroom.js\<close>

text \<open>
  The request after \<open>authenticateToken\<close>: the user row, \<^verbatim>\<open>parseInt(req.params.id)\<close>
  (\<open>None\<close> is \<^verbatim>\<open>NaN\<close>) and the fields of the body (\<open>None\<close> is \<^verbatim>\<open>undefined\<close>; a field that
  is present is a string).
\<close>

record request =
  req_user_id :: int
  req_subscription_tier :: string
  req_params_id :: "int option"
  req_title :: "string option"
  req_description :: "string option"
  req_content :: "string option"

definition pool_query :: "(pool \<Rightarrow> 'r \<times> pool) \<Rightarrow> world \<Rightarrow> (error + 'r) \<times> world" where
  "pool_query stmt w = (case query stmt (pool w) of (r, p') \<Rightarrow> (r, w\<lparr>pool := p'\<rparr>))"

text \<open>\<^verbatim>\<open>await clearChatroomCache(userId)\<close> inside a handler.\<close>

definition clear_cache :: "int \<Rightarrow> world \<Rightarrow> (error + unit) \<times> world" where
  "clear_cache uid w =
     (case clearChatroomCache (redis w) uid of
        (Inl e, r') \<Rightarrow> (Inl e, w\<lparr>redis := r'\<rparr>)
      | (Inr _, r') \<Rightarrow> (Inr (), w\<lparr>redis := r', events := events w @ [CacheCleared uid]\<rparr>))"

text \<open>\<^verbatim>\<open>description?.trim() || null\<close>\<close>

definition trim_description :: "string option \<Rightarrow> string option" where
  "trim_description d =
     (case d of None \<Rightarrow> None | Some s \<Rightarrow> (if trim s = [] then None else Some (trim s)))"

definition owned :: "int \<Rightarrow> int \<Rightarrow> chatroom \<Rightarrow> bool" where
  "owned cid uid c = (room_id c = cid \<and> room_user_id c = uid)"

text \<open>
  \<^verbatim>\<open>INSERT INTO chatrooms (user_id, title, description) VALUES ($1, $2, $3) RETURNING ...\<close>
\<close>

definition insert_chatroom :: "int \<Rightarrow> string \<Rightarrow> string option \<Rightarrow> pool \<Rightarrow> chatroom \<times> pool" where
  "insert_chatroom uid t d p =
     (let row = \<lparr>room_id = next_chatroom_id p, room_user_id = uid, room_title = t,
                 room_description = d, room_created_at = now p, room_updated_at = now p\<rparr>
      in (row, p\<lparr>chatrooms := chatrooms p @ [row],
                 next_chatroom_id := next_chatroom_id p + 1\<rparr>))"

text \<open>
  \<^verbatim>\<open>UPDATE chatrooms SET title = $1, description = $2, updated_at = CURRENT_TIMESTAMP
  WHERE id = $3 AND user_id = $4 RETURNING ...\<close>
\<close>

definition update_chatroom :: "string \<Rightarrow> string option \<Rightarrow> int \<Rightarrow> int \<Rightarrow> pool
    \<Rightarrow> chatroom list \<times> pool" where
  "update_chatroom t d cid uid p =
     (let rows = map (\<lambda>c. if owned cid uid c
                           then c\<lparr>room_title := t, room_description := d,
                                  room_updated_at := now p\<rparr>
                           else c) (chatrooms p)
      in (filter (owned cid uid) rows, p\<lparr>chatrooms := rows\<rparr>))"

text \<open>
  \<^verbatim>\<open>DELETE FROM chatrooms WHERE id = $1 AND user_id = $2 RETURNING id\<close>; the messages
  of a deleted chatroom go with it (\<^verbatim>\<open>CASCADE\<close>, as the handler's comment says).
\<close>

definition delete_chatroom :: "int \<Rightarrow> int \<Rightarrow> pool \<Rightarrow> int list \<times> pool" where
  "delete_chatroom cid uid p =
     (let rows = filter (owned cid uid) (chatrooms p)
      in (map room_id rows,
          p\<lparr>chatrooms := filter (\<lambda>c. \<not> owned cid uid c) (chatrooms p),
            messages := (if rows = [] then messages p
                         else filter (\<lambda>m. msg_chatroom_id m \<noteq> cid) (messages p))\<rparr>))"

text \<open>\<^verbatim>\<open>SELECT id FROM chatrooms WHERE id = $1 AND user_id = $2\<close>\<close>

definition select_chatroom :: "int \<Rightarrow> int \<Rightarrow> pool \<Rightarrow> int list \<times> pool" where
  "select_chatroom cid uid p = (map room_id (filter (owned cid uid) (chatrooms p)), p)"

text \<open>
  \<^verbatim>\<open>INSERT INTO messages (chatroom_id, user_id, content, message_type, status)
  VALUES ($1, $2, $3, $4, $5) RETURNING id, ...\<close>
\<close>

definition insert_message :: "int \<Rightarrow> int \<Rightarrow> string \<Rightarrow> message_type \<Rightarrow> status \<Rightarrow> pool
    \<Rightarrow> message \<times> pool" where
  "insert_message cid uid c ty st p =
     (let row = \<lparr>msg_id = next_message_id p, msg_chatroom_id = cid, msg_user_id = uid,
                 msg_content = c, msg_message_type = ty, msg_gemini_response = None,
                 msg_status = st, msg_created_at = now p, msg_updated_at = now p\<rparr>
      in (row, p\<lparr>messages := messages p @ [row], next_message_id := next_message_id p + 1\<rparr>))"

text \<open>\<^verbatim>\<open>UPDATE chatrooms SET updated_at = CURRENT_TIMESTAMP WHERE id = $1\<close>\<close>

definition touch_chatroom :: "int \<Rightarrow> pool \<Rightarrow> unit \<times> pool" where
  "touch_chatroom cid p =
     ((), p\<lparr>chatrooms :=
        map (\<lambda>c. if room_id c = cid then c\<lparr>room_updated_at := now p\<rparr> else c) (chatrooms p)\<rparr>)"

text \<open>\<^verbatim>\<open>UPDATE users SET daily_usage_count = daily_usage_count + 1 WHERE id = $1\<close>\<close>

definition increment_usage :: "int \<Rightarrow> pool \<Rightarrow> unit \<times> pool" where
  "increment_usage uid p =
     ((), p\<lparr>users :=
        map (\<lambda>u. if usr_id u = uid
                  then u\<lparr>usr_daily_usage_count := Suc (usr_daily_usage_count u)\<rparr>
                  else u) (users p)\<rparr>)"

text \<open>\<^verbatim>\<open>!title || title.trim().length === 0\<close> on a string.\<close>

definition blank :: "string \<Rightarrow> bool" where
  "blank s = (s = [] \<or> length (trim s) = 0)"

text \<open>\<^verbatim>\<open>POST /chatroom\<close>\<close>

definition post_chatroom :: "request \<Rightarrow> world \<Rightarrow> world" where
  "post_chatroom req w =
     (case req_title req of
        None \<Rightarrow> respond 400 w
      | Some t \<Rightarrow>
          if blank t then respond 400 w
          else if length t > 200 then respond 400 w
          else
            (case pool_query (insert_chatroom (req_user_id req) (trim t)
                                (trim_description (req_description req))) w of
               (Inl e, w1) \<Rightarrow> next_error e w1
             | (Inr row, w1) \<Rightarrow>
                 (case clear_cache (req_user_id req) w1 of
                    (Inl e, w2) \<Rightarrow> next_error e w2
                  | (Inr _, w2) \<Rightarrow> respond 201 w2)))"

text \<open>\<^verbatim>\<open>PUT /chatroom/:id\<close>\<close>

definition put_chatroom :: "request \<Rightarrow> world \<Rightarrow> world" where
  "put_chatroom req w =
     (case req_params_id req of
        None \<Rightarrow> respond 400 w
      | Some cid \<Rightarrow>
          (case req_title req of
             None \<Rightarrow> respond 400 w
           | Some t \<Rightarrow>
               if blank t then respond 400 w
               else
                 (case pool_query (update_chatroom (trim t)
                                     (trim_description (req_description req))
                                     cid (req_user_id req)) w of
                    (Inl e, w1) \<Rightarrow> next_error e w1
                  | (Inr rows, w1) \<Rightarrow>
                      if length rows = 0 then respond 404 w1
                      else
                        (case clear_cache (req_user_id req) w1 of
                           (Inl e, w2) \<Rightarrow> next_error e w2
                         | (Inr _, w2) \<Rightarrow> respond 200 w2))))"

text \<open>\<^verbatim>\<open>DELETE /chatroom/:id\<close>\<close>

definition delete_chatroom_route :: "request \<Rightarrow> world \<Rightarrow> world" where
  "delete_chatroom_route req w =
     (case req_params_id req of
        None \<Rightarrow> respond 400 w
      | Some cid \<Rightarrow>
          (case pool_query (delete_chatroom cid (req_user_id req)) w of
             (Inl e, w1) \<Rightarrow> next_error e w1
           | (Inr rows, w1) \<Rightarrow>
               if length rows = 0 then respond 404 w1
               else
                 (case clear_cache (req_user_id req) w1 of
                    (Inl e, w2) \<Rightarrow> next_error e w2
                  | (Inr _, w2) \<Rightarrow> respond 200 w2)))"

text \<open>
  \<^verbatim>\<open>POST /chatroom/:id/message\<close>, after \<open>rateLimiter\<close>. \<open>post_message_enqueue\<close> is the
  handler from its call of \<open>addGeminiJob\<close> on, with the id of the placeholder row.
\<close>

definition post_message_enqueue :: "gemini \<Rightarrow> request \<Rightarrow> int \<Rightarrow> string \<Rightarrow> int \<Rightarrow> world \<Rightarrow> world" where
  "post_message_enqueue g req cid t aiMessageId w =
     (case addGeminiJob g \<lparr>messageId = aiMessageId, chatroomId = cid,
                           userId = req_user_id req, userMessage = trim t\<rparr> w of
        (Inl e, w1) \<Rightarrow> next_error e w1
      | (Inr j, w1) \<Rightarrow>
          (case pool_query (touch_chatroom cid) w1 of
             (Inl e, w2) \<Rightarrow> next_error e w2
           | (Inr _, w2) \<Rightarrow>
               (case clear_cache (req_user_id req) w2 of
                  (Inl e, w3) \<Rightarrow> next_error e w3
                | (Inr _, w3) \<Rightarrow>
                    (if req_subscription_tier req = ''basic''
                     then (case pool_query (increment_usage (req_user_id req)) (respond 201 w3) of
                             (Inl e, w5) \<Rightarrow> next_error e w5
                           | (Inr _, w5) \<Rightarrow> w5)
                     else respond 201 w3))))"

definition post_message :: "gemini \<Rightarrow> request \<Rightarrow> world \<Rightarrow> world" where
  "post_message g req w =
     (case req_params_id req of
        None \<Rightarrow> respond 400 w
      | Some cid \<Rightarrow>
          (case req_content req of
             None \<Rightarrow> respond 400 w
           | Some t \<Rightarrow>
               if blank t then respond 400 w
               else
                 (case pool_query (select_chatroom cid (req_user_id req)) w of
                    (Inl e, w1) \<Rightarrow> next_error e w1
                  | (Inr rows, w1) \<Rightarrow>
                      if length rows = 0 then respond 404 w1
                      else
                        (case pool_query (insert_message cid (req_user_id req) (trim t)
                                            User Completed) w1 of
                           (Inl e, w2) \<Rightarrow> next_error e w2
                         | (Inr userMsg, w2) \<Rightarrow>
                             (case pool_query (insert_message cid (req_user_id req)
                                                 ''Processing your request...'' Ai Pending) w2 of
                                (Inl e, w3) \<Rightarrow> next_error e w3
                              | (Inr aiMsg, w3) \<Rightarrow>
                                  post_message_enqueue g req cid t (msg_id aiMsg) w3)))))"

section \<open>Example data\<close>

definition ex_user_message :: message where
  "ex_user_message =
     \<lparr>msg_id = 41, msg_chatroom_id = 7, msg_user_id = 1, msg_content = ''Hi'',
      msg_message_type = User, msg_gemini_response = None, msg_status = Completed,
      msg_created_at = 3, msg_updated_at = 3\<rparr>"

definition ex_ai_message :: message where
  "ex_ai_message =
     \<lparr>msg_id = 42, msg_chatroom_id = 7, msg_user_id = 1,
      msg_content = ''Processing your request...'',
      msg_message_type = Ai, msg_gemini_response = None, msg_status = Pending,
      msg_created_at = 4, msg_updated_at = 4\<rparr>"

definition ex_room :: chatroom where
  "ex_room = \<lparr>room_id = 7, room_user_id = 1, room_title = ''Room'', room_description = None,
              room_created_at = 1, room_updated_at = 1\<rparr>"

definition ex_pool :: pool where
  "ex_pool =
     \<lparr>messages = [ex_user_message, ex_ai_message], chatrooms = [ex_room],
      users = [\<lparr>usr_id = 1, usr_daily_usage_count = 0\<rparr>],
      next_message_id = 43, next_chatroom_id = 8, now = 5, faults = []\<rparr>"

definition ex_job :: job_data where
  "ex_job = \<lparr>messageId = 42, chatroomId = 7, userId = 1, userMessage = ''Hi''\<rparr>"

definition gemini_hello :: gemini where
  "gemini_hello prompt = Inr ''Hello''"

definition gemini_timeout :: gemini where
  "gemini_timeout prompt = Inl (ApiError ''Timeout'')"

definition ex_failed_message :: message where
  "ex_failed_message =
     \<lparr>msg_id = 42, msg_chatroom_id = 7, msg_user_id = 1, msg_content = failed_text,
      msg_message_type = Ai, msg_gemini_response = None, msg_status = Failed,
      msg_created_at = 4, msg_updated_at = 6\<rparr>"

definition ex_failed_pool :: pool where
  "ex_failed_pool = ex_pool\<lparr>messages := [ex_user_message, ex_failed_message], now := 8\<rparr>"

definition ex_fault_pool :: pool where
  "ex_fault_pool = ex_pool\<lparr>faults := [Some (PgError ''57P01''), None]\<rparr>"

definition gemini_echo :: gemini where
  "gemini_echo prompt = Inr prompt"

definition ex_long_pool :: pool where
  "ex_long_pool =
     ex_pool\<lparr>messages :=
       map (\<lambda>i. ex_user_message\<lparr>msg_id := int i, msg_created_at := i\<rparr>) [1..<13]\<rparr>"

definition ex_redis_down :: "redis_client option" where
  "ex_redis_down =
     Some \<lparr>kv = [chatroom_key 1 \<mapsto> (''[]'', 300)],
           redis_faults = [Some (RedisError ''ECONNREFUSED'')]\<rparr>"

definition parse_array :: "string \<Rightarrow> error + json" where
  "parse_array s = (if s = ''[]'' then Inr (JArr []) else Inl (SyntaxError s))"

definition stringify_array :: "json \<Rightarrow> error + string" where
  "stringify_array j = (if j = JArr [] then Inr ''[]'' else Inl (JsError ''not supported''))"

definition ex_bull :: bull_queue where
  "ex_bull =
     \<lparr>q_waiting = [\<lparr>job_id = ''4'', data = ex_job\<rparr>], q_active = [],
      q_completed = [\<lparr>job_id = ''1'', data = ex_job\<rparr>, \<lparr>job_id = ''2'', data = ex_job\<rparr>],
      q_failed = [\<lparr>job_id = ''3'', data = ex_job\<rparr>], q_next_id = 5, q_faults = []\<rparr>"

definition ex_bull_down :: bull_queue where
  "ex_bull_down = ex_bull\<lparr>q_faults := [None, Some (RedisError ''ECONNRESET'')]\<rparr>"

definition ex_redis :: "redis_client option" where
  "ex_redis = Some \<lparr>kv = [chatroom_key 1 \<mapsto> (''[]'', 300)], redis_faults = []\<rparr>"

definition ex_world :: world where
  "ex_world = \<lparr>pool = ex_pool, redis = ex_redis, geminiQueue = Some MockQueue,
                clock = 1000, events = []\<rparr>"

definition ex_request :: request where
  "ex_request = \<lparr>req_user_id = 1, req_subscription_tier = ''basic'', req_params_id = Some 7,
                  req_title = Some ''Room 2'', req_description = None,
                  req_content = Some ''Hi''\<rparr>"

definition ex_mock_fault_world :: world where
  "ex_mock_fault_world =
     ex_world\<lparr>pool := ex_pool\<lparr>faults := [None, None, None, Some (PgError ''57P01''), None]\<rparr>\<rparr>"

definition ex_bull_empty :: bull_queue where
  "ex_bull_empty = \<lparr>q_waiting = [], q_active = [], q_completed = [], q_failed = [],
                     q_next_id = 1, q_faults = []\<rparr>"

definition ex_durable_world :: world where
  "ex_durable_world = ex_world\<lparr>geminiQueue := Some (Durable ex_bull_empty)\<rparr>"

definition ex_fault_world :: world where
  "ex_fault_world = ex_world\<lparr>pool := ex_fault_pool\<rparr>"

section \<open>Predicates used in the statements\<close>

text \<open>The next call of \<^verbatim>\<open>pool.query\<close> throws.\<close>

definition query_throws :: "pool \<Rightarrow> bool" where
  "query_throws p = (case faults p of Some e # fs \<Rightarrow> True | _ \<Rightarrow> False)"

text \<open>
  How a handler run ends: with one response that is not a success, or with the cache
  clear for the user first, then the responses, the client being in the state the clear
  left it in.
\<close>

definition handler_outcome :: "int \<Rightarrow> world \<Rightarrow> world \<Rightarrow> bool" where
  "handler_outcome uid w w' =
     ((\<exists>c. events w' = [Respond c] \<and> \<not> is_success c)
      \<or> (\<exists>c tl. events w' = CacheCleared uid # Respond c # tl
            \<and> redis w' = snd (clearChatroomCache (redis w) uid)))"

section \<open>Properties of the job processor\<close>

lemmas ex_defs = ex_user_message_def ex_ai_message_def ex_room_def ex_pool_def ex_job_def
  gemini_hello_def gemini_timeout_def

lemmas job_defs = processGeminiJob_def query_def update_processing_def
  generateResponseWithContext_def select_history_def update_completed_def update_failed_def
  job_catch_def recent_completed_def order_by_created_at_desc_def completed_in_def
  history_row_of_def generateResponse_def

text \<open>With a store that answers, the processor runs its three queries and returns.\<close>

lemma processGeminiJob_available:
  assumes "faults p = []"
  shows "processGeminiJob g d p =
    (let p1 = snd (update_processing (messageId d) p);
         r = generateResponse g (userMessage d)
               (rev (map history_row_of (recent_completed (chatroomId d) p1)))
     in (Inr \<lparr>success = True, result_messageId = messageId d, response = r\<rparr>,
         p\<lparr>messages := map (\<lambda>m. if msg_id m = messageId d
                  then m\<lparr>msg_gemini_response := Some r,
                         msg_content := r,
                         msg_status := Completed,
                         msg_updated_at := now p + 2\<rparr>
                  else m) (messages p), now := now p + 3\<rparr>))"
  using assms
  by (simp add: processGeminiJob_def query_def update_processing_def
      generateResponseWithContext_def select_history_def update_completed_def Let_def comp_def
      recent_completed_def if_distrib cong: if_cong)

text \<open>
  C3. When the Generation Collaborator returns the text \<open>T\<close> and the store answers, the job
  processor returns success with \<open>T\<close>, keeps the rows of the table, and leaves every row of
  the job's message id with status completed and \<open>T\<close> as response text and content.
\<close>

theorem processGeminiJob_persists_response:
  assumes "faults p = []" and "\<forall>prompt. g prompt = Inr T"
  shows "fst (processGeminiJob g d p)
           = Inr \<lparr>success = True, result_messageId = messageId d, response = T\<rparr>
       \<and> map msg_id (messages (snd (processGeminiJob g d p))) = map msg_id (messages p)
       \<and> (\<forall>m \<in> set (messages (snd (processGeminiJob g d p))).
             msg_id m = messageId d \<longrightarrow>
             msg_status m = Completed \<and> msg_gemini_response m = Some T \<and> msg_content m = T)"
proof -
  have r: "generateResponse g um h = T" for um h
    using assms(2) by (simp add: generateResponse_def)
  show ?thesis
    by (auto simp add: processGeminiJob_available [OF assms(1)] Let_def r comp_def)
qed

theorem processGeminiJob_persists_response_witness:
  "faults ex_pool = [] \<and> (\<forall>prompt. gemini_hello prompt = Inr ''Hello'')
   \<and> fst (processGeminiJob gemini_hello ex_job ex_pool)
       = Inr \<lparr>success = True, result_messageId = 42, response = ''Hello''\<rparr>
   \<and> map msg_id (messages (snd (processGeminiJob gemini_hello ex_job ex_pool))) = [41, 42]
   \<and> map msg_status (messages (snd (processGeminiJob gemini_hello ex_job ex_pool)))
       = [Completed, Completed]
   \<and> map msg_gemini_response (messages (snd (processGeminiJob gemini_hello ex_job ex_pool)))
       = [None, Some ''Hello'']"
  using processGeminiJob_persists_response [of ex_pool gemini_hello "''Hello''" ex_job]
  by (simp add: job_defs ex_defs)

text \<open>
  C1, as stated, fails: message 42 is in the terminal state failed; a re-run of the job
  processor for it, with a collaborator that answers, leaves it completed with a new text.
\<close>

theorem rerun_counterexample:
  "msg_status ex_failed_message = Failed
   \<and> messages ex_failed_pool = [ex_user_message, ex_failed_message]
   \<and> messages (snd (processGeminiJob gemini_hello ex_job ex_failed_pool))
       = [ex_user_message,
          ex_failed_message\<lparr>msg_gemini_response := Some ''Hello'', msg_content := ''Hello'',
                            msg_status := Completed, msg_updated_at := 10\<rparr>]
   \<and> msg_status (messages (snd (processGeminiJob gemini_hello ex_job ex_failed_pool)) ! 1)
       \<noteq> msg_status ex_failed_message
   \<and> msg_content (messages (snd (processGeminiJob gemini_hello ex_job ex_failed_pool)) ! 1)
       \<noteq> msg_content ex_failed_message"
  by (simp add: job_defs ex_defs ex_failed_message_def ex_failed_pool_def failed_text_def)

text \<open>
  C1, amended. The writes of the job processor are keyed by the message id alone and are
  not guarded by the current status: with a store that answers, a run for a message in
  any status, terminal or not, returns success and rewrites every row of that id to
  completed with this run's response as response text and content; the rows of other
  messages are left as they are.
\<close>

theorem processGeminiJob_unguarded:
  assumes "faults p = []"
  shows "\<exists>r. fst (processGeminiJob g d p)
               = Inr \<lparr>success = True, result_messageId = messageId d, response = r\<rparr>
           \<and> length (messages (snd (processGeminiJob g d p))) = length (messages p)
           \<and> (\<forall>i < length (messages p).
                 messages (snd (processGeminiJob g d p)) ! i =
                   (if msg_id (messages p ! i) = messageId d
                    then (messages p ! i)\<lparr>msg_gemini_response := Some r, msg_content := r,
                                           msg_status := Completed, msg_updated_at := now p + 2\<rparr>
                    else messages p ! i))"
  by (simp add: processGeminiJob_available [OF assms] Let_def)

theorem processGeminiJob_unguarded_witness:
  "faults ex_failed_pool = []
   \<and> msg_status (messages ex_failed_pool ! 1) = Failed
   \<and> msg_id (messages ex_failed_pool ! 1) = messageId ex_job
   \<and> (\<exists>r. fst (processGeminiJob gemini_hello ex_job ex_failed_pool)
               = Inr \<lparr>success = True, result_messageId = messageId ex_job, response = r\<rparr>
           \<and> messages (snd (processGeminiJob gemini_hello ex_job ex_failed_pool)) ! 1
               = (messages ex_failed_pool ! 1)\<lparr>msg_gemini_response := Some r, msg_content := r,
                    msg_status := Completed, msg_updated_at := now ex_failed_pool + 2\<rparr>)"
proof -
  have f: "faults ex_failed_pool = []" by (simp add: ex_defs ex_failed_message_def ex_failed_pool_def)
  have l: "1 < length (messages ex_failed_pool)" by (simp add: ex_defs ex_failed_message_def ex_failed_pool_def)
  have i: "msg_id (messages ex_failed_pool ! 1) = messageId ex_job"
    by (simp add: ex_defs ex_failed_message_def ex_failed_pool_def)
  have s: "msg_status (messages ex_failed_pool ! 1) = Failed"
    by (simp add: ex_defs ex_failed_message_def ex_failed_pool_def)
  obtain r where
    r: "fst (processGeminiJob gemini_hello ex_job ex_failed_pool)
          = Inr \<lparr>success = True, result_messageId = messageId ex_job, response = r\<rparr>"
    and a: "\<forall>i < length (messages ex_failed_pool).
                 messages (snd (processGeminiJob gemini_hello ex_job ex_failed_pool)) ! i =
                   (if msg_id (messages ex_failed_pool ! i) = messageId ex_job
                    then (messages ex_failed_pool ! i)\<lparr>msg_gemini_response := Some r,
                           msg_content := r, msg_status := Completed,
                           msg_updated_at := now ex_failed_pool + 2\<rparr>
                    else messages ex_failed_pool ! i)"
    using processGeminiJob_unguarded [OF f, of gemini_hello ex_job] by blast
  from a l i have "messages (snd (processGeminiJob gemini_hello ex_job ex_failed_pool)) ! 1
               = (messages ex_failed_pool ! 1)\<lparr>msg_gemini_response := Some r, msg_content := r,
                    msg_status := Completed, msg_updated_at := now ex_failed_pool + 2\<rparr>"
    by simp
  with f s i r show ?thesis by blast
qed

text \<open>
  C2, as stated, fails: with a collaborator that times out on every call, the processor
  returns success on the first attempt, the worker makes one attempt, and message 42 ends
  completed with the apology of \<open>generateResponse\<close> as content, not failed.
\<close>

theorem generation_failure_counterexample:
  "gemini_timeout (build_prompt (userMessage ex_job) []) = Inl (ApiError ''Timeout'')
   \<and> fst (processGeminiJob gemini_timeout ex_job ex_pool)
       = Inr \<lparr>success = True, result_messageId = 42, response = apology_text\<rparr>
   \<and> fst (snd (run_job (job_attempts - 1) gemini_timeout ex_job ex_pool)) = 1
   \<and> map msg_status
        (messages (snd (snd (run_job (job_attempts - 1) gemini_timeout ex_job ex_pool))))
       = [Completed, Completed]
   \<and> map msg_content
        (messages (snd (snd (run_job (job_attempts - 1) gemini_timeout ex_job ex_pool))))
       = [''Hi'', apology_text]
   \<and> Completed \<noteq> Failed"
  by (simp add: job_defs ex_defs job_attempts_def js_get_def defaultJobOptions_def
      numeral_2_eq_2)

lemma run_job_returns:
  "fst (processGeminiJob g d p) = Inr r \<Longrightarrow>
   run_job k g d p = (Inr r, 1, snd (processGeminiJob g d p))"
  by (cases k; cases "processGeminiJob g d p") auto

text \<open>
  C2, amended. When every call of the Generation Collaborator fails and the store answers,
  \<open>generateResponse\<close> turns the failure into its fixed apology, and the job processor
  returns success on the first attempt: the worker makes one attempt whatever the limit,
  and the message ends completed with the apology as content. The state failed with the
  fixed text of the processor is written by the processor's \<^verbatim>\<open>catch\<close>, when a query of
  the processor throws, on that very attempt: when its first query throws and the next
  succeeds, the processor rethrows the error and the message is failed with that text.
\<close>

theorem generation_failure_completes:
  "(faults p = [] \<and> (\<forall>prompt. \<exists>e. g prompt = Inl e) \<longrightarrow>
      fst (processGeminiJob g d p)
         = Inr \<lparr>success = True, result_messageId = messageId d, response = apology_text\<rparr>
      \<and> fst (snd (run_job k g d p)) = 1
      \<and> (\<forall>m \<in> set (messages (snd (snd (run_job k g d p)))).
            msg_id m = messageId d \<longrightarrow> msg_status m = Completed \<and> msg_content m = apology_text))
   \<and> (faults p = Some e # None # fs \<longrightarrow>
      fst (processGeminiJob g d p) = Inl e
      \<and> (\<forall>m \<in> set (messages (snd (processGeminiJob g d p))).
            msg_id m = messageId d \<longrightarrow> msg_status m = Failed \<and> msg_content m = failed_text))"
proof (intro conjI impI)
  assume a: "faults p = [] \<and> (\<forall>prompt. \<exists>e. g prompt = Inl e)"
  have r: "generateResponse g um h = apology_text" for um h
  proof -
    obtain e where "g (build_prompt um h) = Inl e" using a by blast
    then show ?thesis by (simp add: generateResponse_def)
  qed
  have av: "faults p = []" using a by simp
  show 1: "fst (processGeminiJob g d p)
         = Inr \<lparr>success = True, result_messageId = messageId d, response = apology_text\<rparr>"
    by (simp add: processGeminiJob_available [OF av] Let_def r)
  show "fst (snd (run_job k g d p)) = 1"
    by (simp add: run_job_returns [OF 1])
  show "\<forall>m \<in> set (messages (snd (snd (run_job k g d p)))).
            msg_id m = messageId d \<longrightarrow> msg_status m = Completed \<and> msg_content m = apology_text"
    by (auto simp add: run_job_returns [OF 1] processGeminiJob_available [OF av] Let_def r)
next
  assume b: "faults p = Some e # None # fs"
  show "fst (processGeminiJob g d p) = Inl e"
    using b by (simp add: processGeminiJob_def query_def job_catch_def update_failed_def)
  show "\<forall>m \<in> set (messages (snd (processGeminiJob g d p))).
            msg_id m = messageId d \<longrightarrow> msg_status m = Failed \<and> msg_content m = failed_text"
    using b by (auto simp add: processGeminiJob_def query_def job_catch_def update_failed_def)
qed

theorem generation_failure_completes_witness:
  "faults ex_pool = [] \<and> (\<forall>prompt. \<exists>e. gemini_timeout prompt = Inl e)
   \<and> fst (processGeminiJob gemini_timeout ex_job ex_pool)
         = Inr \<lparr>success = True, result_messageId = 42, response = apology_text\<rparr>
   \<and> fst (snd (run_job 2 gemini_timeout ex_job ex_pool)) = 1
   \<and> map msg_status (messages (snd (snd (run_job 2 gemini_timeout ex_job ex_pool))))
       = [Completed, Completed]
   \<and> faults ex_fault_pool = [Some (PgError ''57P01''), None]
   \<and> fst (processGeminiJob gemini_hello ex_job ex_fault_pool) = Inl (PgError ''57P01'')
   \<and> map msg_status (messages (snd (processGeminiJob gemini_hello ex_job ex_fault_pool)))
       = [Completed, Failed]"
  using generation_failure_completes
          [of ex_pool gemini_timeout ex_job 2 "PgError ''57P01''" "[]"]
        generation_failure_completes
          [of ex_fault_pool gemini_hello ex_job 2 "PgError ''57P01''" "[]"]
  by (simp add: job_defs ex_defs ex_fault_pool_def numeral_2_eq_2)

section \<open>Properties of the conversation context\<close>

lemma recent_completed_faults [simp]:
  "recent_completed cid (p\<lparr>faults := fs\<rparr>) = recent_completed cid p"
  by (simp add: recent_completed_def)

lemma context_of_query:
  "fst (generateResponseWithContext g um cid p) =
     generateResponse g um
       (if query_throws p then [] else map history_row_of (rev (recent_completed cid p)))"
  by (simp add: generateResponseWithContext_def query_def select_history_def query_throws_def
      rev_map split: list.splits option.splits)

lemma desc_sorted:
  "sorted_wrt (\<lambda>a b. msg_created_at b \<le> msg_created_at a) (order_by_created_at_desc xs)"
proof -
  have "sorted (map msg_created_at (sort_key msg_created_at xs))" by simp
  then have "sorted_wrt (\<lambda>a b. msg_created_at a \<le> msg_created_at b)
               (sort_key msg_created_at xs)"
    by (simp add: sorted_wrt_map)
  then show ?thesis
    by (simp add: order_by_created_at_desc_def sorted_wrt_rev)
qed

lemma window_sorted:
  "sorted (map msg_created_at (rev (take n (order_by_created_at_desc xs))))"
proof -
  have "sorted_wrt (\<lambda>a b. msg_created_at b \<le> msg_created_at a)
          (take n (order_by_created_at_desc xs))"
    using desc_sorted by (rule sorted_wrt_take)
  then show ?thesis
    by (simp add: sorted_wrt_map sorted_wrt_rev)
qed

lemma window_latest:
  assumes "x \<in> set (drop n (order_by_created_at_desc xs))"
      and "y \<in> set (take n (order_by_created_at_desc xs))"
  shows "msg_created_at x \<le> msg_created_at y"
proof -
  have "sorted_wrt (\<lambda>a b. msg_created_at b \<le> msg_created_at a)
          (take n (order_by_created_at_desc xs) @ drop n (order_by_created_at_desc xs))"
    using desc_sorted by simp
  then show ?thesis
    using assms unfolding sorted_wrt_append by blast
qed

lemma window_mset:
  "mset (rev (take n (order_by_created_at_desc xs)) @ drop n (order_by_created_at_desc xs))
     = mset xs"
proof -
  have "mset (take n (order_by_created_at_desc xs)) + mset (drop n (order_by_created_at_desc xs))
        = mset (order_by_created_at_desc xs)"
    by (metis append_take_drop_id mset_append)
  then show ?thesis by (simp add: order_by_created_at_desc_def)
qed

text \<open>
  C8. The conversation history that \<open>generateResponseWithContext\<close> hands to
  \<open>generateResponse\<close>, whatever the collaborator, is made of at most 10 rows, all of them
  completed messages of the chatroom, oldest first; it is empty when the history query
  throws, and otherwise it is the last \<open>min 10 n\<close> of the chatroom's \<open>n\<close> completed
  messages: no completed message left out is newer than one taken.
\<close>

theorem context_is_recent_window:
  "\<exists>ms. (\<forall>g. fst (generateResponseWithContext g um cid p)
               = generateResponse g um (map history_row_of ms))
     \<and> length ms \<le> 10
     \<and> (\<forall>m \<in> set ms. m \<in> set (messages p) \<and> msg_chatroom_id m = cid \<and> msg_status m = Completed)
     \<and> sorted (map msg_created_at ms)
     \<and> (if query_throws p then ms = []
        else (\<exists>rest. mset (ms @ rest) = mset (filter (completed_in cid) (messages p))
               \<and> length ms = min 10 (length (filter (completed_in cid) (messages p)))
               \<and> (\<forall>x \<in> set rest. \<forall>y \<in> set ms. msg_created_at x \<le> msg_created_at y)))"
proof (cases "query_throws p")
  case True
  then show ?thesis
    by (intro exI [of _ "[]"]) (simp add: context_of_query)
next
  case False
  let ?all = "filter (completed_in cid) (messages p)"
  let ?ms = "rev (recent_completed cid p)"
  let ?rest = "drop 10 (order_by_created_at_desc ?all)"
  have a: "\<forall>g. fst (generateResponseWithContext g um cid p)
               = generateResponse g um (map history_row_of ?ms)"
    using False by (simp add: context_of_query)
  have b: "length ?ms \<le> 10" by (simp add: recent_completed_def)
  have m: "mset (?ms @ ?rest) = mset ?all"
    unfolding recent_completed_def by (rule window_mset)
  have c: "\<forall>m \<in> set ?ms. m \<in> set (messages p) \<and> msg_chatroom_id m = cid
             \<and> msg_status m = Completed"
  proof
    fix x assume "x \<in> set ?ms"
    then have "x \<in># mset (?ms @ ?rest)" by simp
    then have "x \<in> set ?all" unfolding m by simp
    then show "x \<in> set (messages p) \<and> msg_chatroom_id x = cid \<and> msg_status x = Completed"
      by (simp add: completed_in_def)
  qed
  have d: "sorted (map msg_created_at ?ms)"
    unfolding recent_completed_def by (rule window_sorted)
  have l: "length ?ms = min 10 (length ?all)"
    by (simp add: recent_completed_def order_by_created_at_desc_def min.commute)
  have e: "\<forall>x \<in> set ?rest. \<forall>y \<in> set ?ms. msg_created_at x \<le> msg_created_at y"
    using window_latest [of _ 10 ?all] by (simp add: recent_completed_def)
  show ?thesis
    using False a b c d m l e by (intro exI [of _ ?ms]) auto
qed

lemma ex_long_count: "length (filter (completed_in 7) (messages ex_long_pool)) = 12"
  by (simp add: ex_long_pool_def ex_defs completed_in_def)

theorem context_is_recent_window_witness:
  "\<not> query_throws ex_long_pool
   \<and> (\<exists>ms. fst (generateResponseWithContext gemini_echo ''Q'' 7 ex_long_pool)
             = build_prompt ''Q'' (map history_row_of ms)
          \<and> length ms = 10
          \<and> sorted (map msg_created_at ms))
   \<and> map msg_id (rev (recent_completed 7 ex_long_pool)) = [3, 4, 5, 6, 7, 8, 9, 10, 11, 12]"
proof -
  have q: "\<not> query_throws ex_long_pool"
    by (simp add: query_throws_def ex_long_pool_def ex_defs)
  obtain ms where
    a: "\<forall>g. fst (generateResponseWithContext g ''Q'' 7 ex_long_pool)
               = generateResponse g ''Q'' (map history_row_of ms)"
    and s: "sorted (map msg_created_at ms)"
    and w: "if query_throws ex_long_pool then ms = []
        else (\<exists>rest. mset (ms @ rest) = mset (filter (completed_in 7) (messages ex_long_pool))
               \<and> length ms = min 10 (length (filter (completed_in 7) (messages ex_long_pool)))
               \<and> (\<forall>x \<in> set rest. \<forall>y \<in> set ms. msg_created_at x \<le> msg_created_at y))"
    using context_is_recent_window [of "''Q''" 7 ex_long_pool] by blast
  from w q have l: "length ms = 10" by (auto simp add: ex_long_count)
  from a have e: "fst (generateResponseWithContext gemini_echo ''Q'' 7 ex_long_pool)
             = build_prompt ''Q'' (map history_row_of ms)"
    by (simp add: generateResponse_def gemini_echo_def)
  have v: "map msg_id (rev (recent_completed 7 ex_long_pool)) = [3, 4, 5, 6, 7, 8, 9, 10, 11, 12]"
    by code_simp
  from q e l s v show ?thesis by blast
qed

section \<open>Properties of the cache service\<close>

lemmas clear_defs = clearChatroomCache_def clearChatroomCache_try_def getRedis_def
  command_def redis_del_def redis_answers_def

lemmas cache_defs = getCachedChatrooms_def getCachedChatrooms_try_def setCachedChatrooms_def
  setCachedChatrooms_try_def redis_get_def redis_setex_def clear_defs

lemma getCachedChatrooms_returns: "\<exists>v. fst (getCachedChatrooms parse rd uid) = Inr v"
  by (simp add: getCachedChatrooms_def split: prod.splits sum.splits)

lemma getCachedChatrooms_miss:
  "\<not> redis_answers rd \<Longrightarrow> getCachedChatrooms parse rd uid =
     (Inr JNull, map_option (\<lambda>r. r\<lparr>redis_faults := tl (redis_faults r)\<rparr>) rd)"
  by (auto simp add: cache_defs split: option.splits list.splits)

lemma setCachedChatrooms_returns: "fst (setCachedChatrooms stringify rd uid rooms ttl) = Inr ()"
  by (simp add: setCachedChatrooms_def split: prod.splits sum.splits)

lemma clearChatroomCache_returns: "fst (clearChatroomCache rd uid) = Inr ()"
  by (simp add: clearChatroomCache_def split: prod.splits sum.splits)

lemma setCachedChatrooms_down:
  "\<not> redis_answers rd \<Longrightarrow>
     cached (snd (setCachedChatrooms stringify rd uid rooms ttl)) k = cached rd k"
  by (auto simp add: cache_defs cached_def split: option.splits list.splits sum.splits)

text \<open>
  C6. No operation of the chatroom-list cache throws: the read returns a value, the write
  and the invalidation return normally, whatever the state of the client. When the client
  is missing or its next command fails, the read returns \<^verbatim>\<open>null\<close> and the write leaves
  the cache as it was.
\<close>

theorem cache_errors_swallowed:
  "(\<exists>v. fst (getCachedChatrooms parse rd uid) = Inr v)
   \<and> fst (setCachedChatrooms stringify rd uid rooms ttl) = Inr ()
   \<and> fst (clearChatroomCache rd uid) = Inr ()
   \<and> (\<not> redis_answers rd \<longrightarrow>
        fst (getCachedChatrooms parse rd uid) = Inr JNull
        \<and> cached (snd (setCachedChatrooms stringify rd uid rooms ttl)) k = cached rd k)"
  using getCachedChatrooms_returns setCachedChatrooms_returns clearChatroomCache_returns
    getCachedChatrooms_miss setCachedChatrooms_down
  by simp

theorem cache_errors_swallowed_witness:
  "\<not> redis_answers ex_redis_down \<and> \<not> redis_answers None
   \<and> fst (getCachedChatrooms parse_array ex_redis_down 1) = Inr JNull
   \<and> fst (setCachedChatrooms stringify_array ex_redis_down 1 (JArr []) 300) = Inr ()
   \<and> fst (clearChatroomCache ex_redis_down 1) = Inr ()
   \<and> fst (getCachedChatrooms parse_array None 1) = Inr JNull
   \<and> fst (setCachedChatrooms stringify_array None 1 (JArr []) 300) = Inr ()
   \<and> fst (clearChatroomCache None 1) = Inr ()"
proof -
  have d: "\<not> redis_answers ex_redis_down" "\<not> redis_answers None"
    by (simp_all add: redis_answers_def ex_redis_down_def)
  show ?thesis
    using cache_errors_swallowed
            [of parse_array ex_redis_down 1 stringify_array "JArr []" 300 "chatroom_key 1"]
          cache_errors_swallowed
            [of parse_array None 1 stringify_array "JArr []" 300 "chatroom_key 1"] d
    by simp
qed

section \<open>Properties of the queue\<close>

text \<open>
  C9. The queue and the worker are constructed with 3 attempts, exponential backoff with a
  base delay of 2000 ms (the later of the two \<^verbatim>\<open>backoff\<close> entries of the literal, between
  1 and 2 seconds), a job timeout of 30000 ms, a lock duration of 30000 ms, lock renewal
  every 15000 ms, a stalled-job check every 15000 ms, at most 2 stall retries and a
  concurrency of 2.
\<close>

theorem queue_limits:
  "js_get defaultJobOptions ''attempts'' = Some (Num 3)
   \<and> js_path defaultJobOptions ''backoff'' ''type'' = Some (Str ''exponential'')
   \<and> js_path defaultJobOptions ''backoff'' ''delay'' = Some (Num 2000)
   \<and> (1000::nat) \<le> 2000 \<and> (2000::nat) \<le> 2000
   \<and> js_get defaultJobOptions ''timeout'' = Some (Num 30000)
   \<and> js_get workerOptions ''lockDuration'' = Some (Num 30000)
   \<and> js_get workerOptions ''lockRenewTime'' = Some (Num 15000)
   \<and> js_get workerOptions ''stalledInterval'' = Some (Num 15000)
   \<and> js_get workerOptions ''maxStalledCount'' = Some (Num 2)
   \<and> js_get workerOptions ''concurrency'' = Some (Num 2)
   \<and> job_attempts = 3"
  by (simp add: js_get_def js_path_def defaultJobOptions_def workerOptions_def job_attempts_def)

lemmas stats_defs = getQueueStats_def getQueueStats_try_def getWaiting_def getActive_def
  getCompleted_def getFailed_def list_jobs_def queue_call_def zero_stats_def

lemma stats_returns: "\<exists>s. fst (getQueueStats gq) = Inr s"
  by (simp add: getQueueStats_def split: prod.splits sum.splits)

lemma stats_total:
  "fst (getQueueStats gq) = Inr s \<Longrightarrow> total s = waiting s + active s + completed s + failed s"
  by (auto simp add: getQueueStats_def getQueueStats_try_def zero_stats_def
      split: prod.splits sum.splits option.splits)

lemma stats_error: "fst (getQueueStats_try gq) = Inl e \<Longrightarrow> fst (getQueueStats gq) = Inr zero_stats"
  by (cases "getQueueStats_try gq") (auto simp add: getQueueStats_def)

lemma stats_uninitialized: "fst (getQueueStats_try None) = Inl (JsError ''Gemini queue not initialized'')"
  by (simp add: getQueueStats_try_def)

lemma stats_fault:
  "list_ex (\<lambda>f. f \<noteq> None) (take 4 (q_faults b)) \<Longrightarrow> \<exists>e. fst (getQueueStats_try (Some (Durable b))) = Inl e"
  by (cases "q_faults b" rule: list.exhaust)
     (auto simp add: getQueueStats_try_def getWaiting_def getActive_def
      getCompleted_def getFailed_def list_jobs_def queue_call_def split: list.splits option.splits)

lemma stats_available:
  "q_faults b = [] \<Longrightarrow> fst (getQueueStats (Some (Durable b))) =
     Inr \<lparr>waiting = length (q_waiting b), active = length (q_active b),
          completed = length (q_completed b), failed = length (q_failed b),
          total = length (q_waiting b) + length (q_active b) + length (q_completed b)
                  + length (q_failed b)\<rparr>"
  by (simp add: stats_defs)

text \<open>
  C10. \<open>getQueueStats\<close> always returns a record, whose total is the sum of its four
  counts. When the queue is not initialised, or any of the four listing calls fails, the
  record is all zero; when the durable queue answers, the counts are the lengths of its
  four lists.
\<close>

theorem getQueueStats_never_throws:
  "\<exists>s. fst (getQueueStats gq) = Inr s
     \<and> total s = waiting s + active s + completed s + failed s
     \<and> ((\<exists>e. fst (getQueueStats_try gq) = Inl e) \<longrightarrow> s = zero_stats)
     \<and> (gq = None \<longrightarrow> s = zero_stats)
     \<and> (\<forall>b. gq = Some (Durable b) \<and> list_ex (\<lambda>f. f \<noteq> None) (take 4 (q_faults b))
            \<longrightarrow> s = zero_stats)
     \<and> (\<forall>b. gq = Some (Durable b) \<and> q_faults b = []
            \<longrightarrow> waiting s = length (q_waiting b) \<and> active s = length (q_active b)
                \<and> completed s = length (q_completed b) \<and> failed s = length (q_failed b))"
proof -
  obtain s where s: "fst (getQueueStats gq) = Inr s"
    using stats_returns by blast
  have 1: "total s = waiting s + active s + completed s + failed s"
    using s by (rule stats_total)
  have 2: "(\<exists>e. fst (getQueueStats_try gq) = Inl e) \<longrightarrow> s = zero_stats"
    using s stats_error by fastforce
  have 3: "gq = None \<longrightarrow> s = zero_stats"
    using 2 stats_uninitialized by blast
  have 4: "\<forall>b. gq = Some (Durable b) \<and> list_ex (\<lambda>f. f \<noteq> None) (take 4 (q_faults b))
            \<longrightarrow> s = zero_stats"
    using 2 stats_fault by blast
  have 5: "\<forall>b. gq = Some (Durable b) \<and> q_faults b = []
            \<longrightarrow> waiting s = length (q_waiting b) \<and> active s = length (q_active b)
                \<and> completed s = length (q_completed b) \<and> failed s = length (q_failed b)"
    using s by (auto simp add: stats_available)
  from s 1 2 3 4 5 show ?thesis by blast
qed

theorem getQueueStats_never_throws_witness:
  "fst (getQueueStats None) = Inr zero_stats
   \<and> list_ex (\<lambda>f. f \<noteq> None) (take 4 (q_faults ex_bull_down))
   \<and> fst (getQueueStats (Some (Durable ex_bull_down))) = Inr zero_stats
   \<and> q_faults ex_bull = []
   \<and> fst (getQueueStats (Some (Durable ex_bull)))
       = Inr \<lparr>waiting = 1, active = 0, completed = 2, failed = 1, total = 4\<rparr>"
  using getQueueStats_never_throws [of None]
        getQueueStats_never_throws [of "Some (Durable ex_bull_down)"]
        getQueueStats_never_throws [of "Some (Durable ex_bull)"]
  by (simp add: stats_defs ex_bull_def ex_bull_down_def)

section \<open>Properties of the chatroom routes\<close>

lemma error_status_not_success [simp]: "\<not> is_success (error_status e)"
  by (simp add: is_success_def error_status_def split: error.splits)

lemma status_simps [simp]:
  "\<not> is_success 400" "\<not> is_success 404" "is_success 200" "is_success 201"
  by (simp_all add: is_success_def)

lemma pool_query_frame:
  "pool_query stmt w = (r, w') \<Longrightarrow>
     events w' = events w \<and> redis w' = redis w \<and> geminiQueue w' = geminiQueue w \<and> clock w' = clock w"
  by (auto simp add: pool_query_def split: prod.splits)

lemma clear_cache_eq:
  "clear_cache uid w =
     (Inr (), w\<lparr>redis := snd (clearChatroomCache (redis w) uid),
                events := events w @ [CacheCleared uid]\<rparr>)"
  using clearChatroomCache_returns [of "redis w" uid]
  by (cases "clearChatroomCache (redis w) uid") (auto simp add: clear_cache_def)

lemma addGeminiJob_frame:
  "addGeminiJob g d w = (r, w') \<Longrightarrow> events w' = events w \<and> redis w' = redis w"
  by (auto simp add: addGeminiJob_def queue_add_def mock_add_def
      split: option.splits queue.splits prod.splits sum.splits)

lemma clear_effect:
  "redis_answers rd \<Longrightarrow> cached (snd (clearChatroomCache rd uid)) (chatroom_key uid) = None"
  by (auto simp add: clear_defs cached_def split: option.splits list.splits)

lemma respond_simps [simp]:
  "events (respond c w) = events w @ [Respond c]"
  "redis (respond c w) = redis w"
  "events (next_error e w) = events w @ [Respond (error_status e)]"
  "redis (next_error e w) = redis w"
  by (simp_all add: respond_def next_error_def)

lemma outcome_cleared:
  "handler_outcome uid w w' \<Longrightarrow> cleared_before_success uid (events w')"
  by (auto simp add: handler_outcome_def)

lemma outcome_effect:
  "handler_outcome uid w w' \<Longrightarrow> first_response (events w') = Some c \<Longrightarrow> is_success c \<Longrightarrow>
   redis_answers (redis w) \<Longrightarrow> cached (redis w') (chatroom_key uid) = None"
  by (auto simp add: handler_outcome_def clear_effect)

lemma frame_simps [simp]:
  "events (snd (pool_query stmt w)) = events w"
  "redis (snd (pool_query stmt w)) = redis w"
  "events (snd (addGeminiJob g d w)) = events w"
  "redis (snd (addGeminiJob g d w)) = redis w"
  using pool_query_frame [of stmt w "fst (pool_query stmt w)" "snd (pool_query stmt w)"]
    addGeminiJob_frame [of g d w "fst (addGeminiJob g d w)" "snd (addGeminiJob g d w)"]
  by simp_all

lemmas handler_simps = clear_cache_eq handler_outcome_def prod.case_eq_if sum.case_eq_if
  option.case_eq_if

lemma post_chatroom_outcome:
  "events w = [] \<Longrightarrow> handler_outcome (req_user_id req) w (post_chatroom req w)"
  by (simp add: post_chatroom_def handler_simps)

lemma put_chatroom_outcome:
  "events w = [] \<Longrightarrow> handler_outcome (req_user_id req) w (put_chatroom req w)"
  by (simp add: put_chatroom_def handler_simps)

lemma delete_chatroom_outcome:
  "events w = [] \<Longrightarrow> handler_outcome (req_user_id req) w (delete_chatroom_route req w)"
  by (simp add: delete_chatroom_route_def handler_simps)

lemma post_message_enqueue_outcome:
  "events w = [] \<Longrightarrow>
   handler_outcome (req_user_id req) w (post_message_enqueue g req cid t aid w)"
  by (simp add: post_message_enqueue_def handler_simps)

lemma post_message_outcome:
  "events w = [] \<Longrightarrow> handler_outcome (req_user_id req) w (post_message g req w)"
proof -
  assume e: "events w = []"
  have "handler_outcome (req_user_id req) w (post_message_enqueue g req cid t aid w')"
    if "events w' = []" "redis w' = redis w" for cid t aid w'
    using post_message_enqueue_outcome [OF that(1), of req g cid t aid] that(2)
    by (simp add: handler_outcome_def)
  then show ?thesis using e
    by (simp add: post_message_def prod.case_eq_if sum.case_eq_if option.case_eq_if)
       (simp add: handler_outcome_def)
qed

lemmas exchange_defs = pool_query_def clear_cache_def respond_def next_error_def blank_def
  trim_def is_space_def error_status_def owned_def Let_def

lemmas chatroom_route_defs = post_chatroom_def put_chatroom_def delete_chatroom_route_def
  trim_description_def insert_chatroom_def update_chatroom_def delete_chatroom_def

lemmas enqueue_defs = addGeminiJob_def queue_add_def mock_add_def queue_call_def bull_add_def

lemmas message_route_defs = post_message_def post_message_enqueue_def select_chatroom_def
  insert_message_def touch_chatroom_def increment_usage_def

lemmas ex3_defs = ex_redis_def ex_world_def ex_request_def

text \<open>
  C5. In each handler that changes a chatroom (create, update, delete, send message), run
  on a fresh exchange, every success response is sent after the call that clears the
  user's chatroom-list key has returned; and when the Redis client answers, the key is
  absent from the cache once the handler has answered with success.
\<close>

theorem invalidation_before_success:
  assumes "events w = []"
  shows "cleared_before_success (req_user_id req) (events (post_chatroom req w))
       \<and> cleared_before_success (req_user_id req) (events (put_chatroom req w))
       \<and> cleared_before_success (req_user_id req) (events (delete_chatroom_route req w))
       \<and> cleared_before_success (req_user_id req) (events (post_message g req w))
       \<and> (\<forall>w' \<in> {post_chatroom req w, put_chatroom req w, delete_chatroom_route req w,
                   post_message g req w}.
             \<forall>c. first_response (events w') = Some c \<and> is_success c \<and> redis_answers (redis w)
                  \<longrightarrow> cached (redis w') (chatroom_key (req_user_id req)) = None)"
  using post_chatroom_outcome [OF assms, of req] put_chatroom_outcome [OF assms, of req]
    delete_chatroom_outcome [OF assms, of req] post_message_outcome [OF assms, of req g]
  by (auto intro: outcome_cleared outcome_effect)

theorem invalidation_before_success_witness:
  "events ex_world = []
   \<and> cached (redis ex_world) (chatroom_key 1) = Some ''[]''
   \<and> events (post_chatroom ex_request ex_world) = [CacheCleared 1, Respond 201]
   \<and> cached (redis (post_chatroom ex_request ex_world)) (chatroom_key 1) = None
   \<and> events (put_chatroom ex_request ex_world) = [CacheCleared 1, Respond 200]
   \<and> events (delete_chatroom_route ex_request ex_world) = [CacheCleared 1, Respond 200]
   \<and> events (post_message gemini_hello ex_request ex_world) = [CacheCleared 1, Respond 201]
   \<and> cached (redis (post_message gemini_hello ex_request ex_world)) (chatroom_key 1) = None
   \<and> cleared_before_success 1 (events (post_message gemini_hello ex_request ex_world))"
  using invalidation_before_success [of ex_world ex_request gemini_hello]
  by (simp add: exchange_defs chatroom_route_defs message_route_defs enqueue_defs clear_defs
      cached_def job_defs ex_defs ex3_defs)

section \<open>Properties of enqueueing\<close>

text \<open>
  C4, as stated, fails under the mock executor: the three queries of the handler succeed,
  the first query of the job body throws, the mock's \<open>add\<close> rethrows, and the caller of
  \<^verbatim>\<open>POST /chatroom/:id/message\<close> receives status 500; the placeholder row 44 carries the
  failed state written by the job body's \<^verbatim>\<open>catch\<close>.
\<close>

theorem job_error_reaches_caller_counterexample:
  "geminiQueue ex_mock_fault_world = Some MockQueue
   \<and> events (post_message gemini_hello ex_request ex_mock_fault_world) = [Respond 500]
   \<and> first_response (events (post_message gemini_hello ex_request ex_mock_fault_world)) = Some 500
   \<and> \<not> is_success 500
   \<and> map msg_id (messages (pool (post_message gemini_hello ex_request ex_mock_fault_world)))
       = [41, 42, 43, 44]
   \<and> map msg_status (messages (pool (post_message gemini_hello ex_request ex_mock_fault_world)))
       = [Completed, Pending, Completed, Failed]"
  by (simp add: exchange_defs message_route_defs enqueue_defs clear_defs job_defs ex_defs
      ex3_defs ex_mock_fault_world_def is_success_def)

lemma worker_run_events: "events (worker_run g w) = events w"
  by (simp add: worker_run_def split: option.splits queue.splits list.splits prod.splits sum.splits)

lemma durable_add:
  "geminiQueue w = Some (Durable b) \<Longrightarrow>
     addGeminiJob g d w =
       (case queue_call (bull_add d) b of (r, b') \<Rightarrow> (r, w\<lparr>geminiQueue := Some (Durable b')\<rparr>))"
  by (simp add: addGeminiJob_def queue_add_def)

lemma mock_add_throws:
  "geminiQueue w = Some MockQueue \<Longrightarrow> fst (processGeminiJob g d (pool w)) = Inl e \<Longrightarrow>
     addGeminiJob g d w = (Inl e, w\<lparr>pool := snd (processGeminiJob g d (pool w))\<rparr>)"
  by (cases "processGeminiJob g d (pool w)") (simp add: addGeminiJob_def queue_add_def mock_add_def)

text \<open>
  C4, amended. Under the durable queue, enqueueing does not run the job body: it leaves the
  store as it is, it and the rest of the handler do not depend on the collaborator, and the
  worker that runs the job later sends no response, whatever the job body does. Under the
  mock executor the job body runs inside \<open>add\<close>: an error it throws is rethrown by
  \<open>addGeminiJob\<close> to the handler, and the caller receives the error response of
  \<open>errorHandler\<close>, never a success.
\<close>

theorem job_error_propagation:
  "(geminiQueue w = Some (Durable b) \<longrightarrow>
      pool (snd (addGeminiJob g d w)) = pool w
      \<and> addGeminiJob g d w = addGeminiJob g' d w
      \<and> post_message_enqueue g req cid t aid w = post_message_enqueue g' req cid t aid w
      \<and> events (worker_run g (snd (addGeminiJob g d w))) = events w)
   \<and> (geminiQueue w = Some MockQueue \<and> events w = []
        \<and> fst (processGeminiJob g \<lparr>messageId = aid, chatroomId = cid, userId = req_user_id req,
                                    userMessage = trim t\<rparr> (pool w)) = Inl e \<longrightarrow>
      fst (addGeminiJob g \<lparr>messageId = aid, chatroomId = cid, userId = req_user_id req,
                            userMessage = trim t\<rparr> w) = Inl e
      \<and> events (post_message_enqueue g req cid t aid w) = [Respond (error_status e)]
      \<and> \<not> is_success (error_status e))"
proof (intro conjI impI)
  assume d: "geminiQueue w = Some (Durable b)"
  show "pool (snd (addGeminiJob g d w)) = pool w"
    by (simp add: durable_add [OF d] split: prod.splits)
  show a: "addGeminiJob g d w = addGeminiJob g' d w" for d
    by (simp add: durable_add [OF d])
  show "post_message_enqueue g req cid t aid w = post_message_enqueue g' req cid t aid w"
    by (simp add: post_message_enqueue_def a)
  show "events (worker_run g (snd (addGeminiJob g d w))) = events w"
    by (simp add: worker_run_events)
next
  let ?d = "\<lparr>messageId = aid, chatroomId = cid, userId = req_user_id req, userMessage = trim t\<rparr>"
  assume m: "geminiQueue w = Some MockQueue \<and> events w = []
        \<and> fst (processGeminiJob g ?d (pool w)) = Inl e"
  then have a: "addGeminiJob g ?d w = (Inl e, w\<lparr>pool := snd (processGeminiJob g ?d (pool w))\<rparr>)"
    using mock_add_throws by blast
  show "fst (addGeminiJob g ?d w) = Inl e" by (simp add: a)
  show "events (post_message_enqueue g req cid t aid w) = [Respond (error_status e)]"
    using m by (simp add: post_message_enqueue_def a)
  show "\<not> is_success (error_status e)" by simp
qed


theorem job_error_propagation_witness:
  "geminiQueue ex_durable_world = Some (Durable ex_bull_empty)
   \<and> pool (snd (addGeminiJob gemini_timeout ex_job ex_durable_world)) = pool ex_durable_world
   \<and> events (worker_run gemini_timeout (snd (addGeminiJob gemini_timeout ex_job ex_durable_world)))
       = []
   \<and> geminiQueue ex_fault_world = Some MockQueue \<and> events ex_fault_world = []
   \<and> fst (processGeminiJob gemini_hello
            \<lparr>messageId = 42, chatroomId = 7, userId = req_user_id ex_request,
             userMessage = trim ''Hi''\<rparr> (pool ex_fault_world)) = Inl (PgError ''57P01'')
   \<and> events (post_message_enqueue gemini_hello ex_request 7 ''Hi'' 42 ex_fault_world)
       = [Respond 500]"
proof -
  have d: "geminiQueue ex_durable_world = Some (Durable ex_bull_empty)"
    by (simp add: ex3_defs ex_durable_world_def)
  have m: "geminiQueue ex_fault_world = Some MockQueue \<and> events ex_fault_world = []
     \<and> fst (processGeminiJob gemini_hello
            \<lparr>messageId = 42, chatroomId = 7, userId = req_user_id ex_request,
             userMessage = trim ''Hi''\<rparr> (pool ex_fault_world)) = Inl (PgError ''57P01'')"
    by (simp add: ex_defs ex_fault_pool_def ex3_defs ex_fault_world_def job_defs)
  have s: "error_status (PgError ''57P01'') = 500"
    by (simp add: error_status_def)
  have v: "events ex_durable_world = []"
    by (simp add: ex3_defs ex_durable_world_def)
  show ?thesis
    using job_error_propagation
            [of ex_durable_world ex_bull_empty gemini_timeout ex_job gemini_timeout
                ex_request 7 "''Hi''" 42 "PgError ''57P01''"]
          job_error_propagation
            [of ex_fault_world ex_bull_empty gemini_hello ex_job gemini_hello
                ex_request 7 "''Hi''" 42 "PgError ''57P01''"]
          d m s v
    by simp
qed

lemma available_returns:
  "faults p = [] \<Longrightarrow> \<exists>r. fst (processGeminiJob g d p) = Inr r"
  by (simp add: processGeminiJob_available Let_def)

lemma success_rows:
  "fst (processGeminiJob g d p) = Inr r \<Longrightarrow> m \<in> set (messages (snd (processGeminiJob g d p))) \<Longrightarrow>
   msg_id m = messageId d \<Longrightarrow>
   msg_status m = Completed \<and> msg_gemini_response m = Some (response r) \<and> msg_content m = response r"
  by (auto simp add: processGeminiJob_def job_catch_def generateResponseWithContext_def
      query_def update_completed_def update_processing_def select_history_def update_failed_def
      split: prod.splits sum.splits list.splits option.splits)

lemma job_attempts_eq: "job_attempts = 3"
  by (simp add: job_attempts_def js_get_def defaultJobOptions_def)

lemma run_job_after_throw:
  "processGeminiJob g d p = (Inl e, p') \<Longrightarrow>
   snd (snd (run_job (Suc k) g d p)) = snd (snd (run_job k g d p'))"
  by (simp split: prod.splits)

lemma worker_run_pool:
  "geminiQueue w = Some (Durable b) \<Longrightarrow> q_waiting b = j # js \<Longrightarrow>
   pool (worker_run g w) = snd (snd (run_job (job_attempts - 1) g (data j) (pool w)))"
  by (simp add: worker_run_def split: prod.splits sum.splits)

text \<open>
  C7, as stated, fails: on a store whose next query throws and whose following query
  succeeds, with a collaborator that answers, enqueueing under the mock executor throws to
  the caller and leaves message 42 failed after its single attempt, while enqueueing under
  the durable queue returns the job and the worker's retry leaves message 42 completed.
\<close>

theorem fallback_parity_counterexample:
  "q_faults ex_bull_empty = [] \<and> q_waiting ex_bull_empty = []
   \<and> faults (pool ex_fault_world) = [Some (PgError ''57P01''), None]
   \<and> fst (addGeminiJob gemini_hello ex_job (ex_fault_world\<lparr>geminiQueue := Some MockQueue\<rparr>))
       = Inl (PgError ''57P01'')
   \<and> fst (addGeminiJob gemini_hello ex_job
             (ex_fault_world\<lparr>geminiQueue := Some (Durable ex_bull_empty)\<rparr>))
       = Inr \<lparr>job_id = string_of_nat 1, data = ex_job\<rparr>
   \<and> map msg_status
        (messages (pool (snd (addGeminiJob gemini_hello ex_job
                               (ex_fault_world\<lparr>geminiQueue := Some MockQueue\<rparr>)))))
       = [Completed, Failed]
   \<and> map msg_status
        (messages (pool (worker_run gemini_hello
                          (snd (addGeminiJob gemini_hello ex_job
                                 (ex_fault_world\<lparr>geminiQueue := Some (Durable ex_bull_empty)\<rparr>))))))
       = [Completed, Completed]
   \<and> map msg_content
        (messages (pool (worker_run gemini_hello
                          (snd (addGeminiJob gemini_hello ex_job
                                 (ex_fault_world\<lparr>geminiQueue := Some (Durable ex_bull_empty)\<rparr>))))))
       = [''Hi'', ''Hello'']"
  by (simp add: enqueue_defs job_defs ex_defs ex3_defs ex_fault_world_def ex_fault_pool_def
      ex_bull_empty_def worker_run_def job_attempts_eq numeral_2_eq_2 Let_def)

text \<open>
  C7, amended. When the queue backend answers and no other job is waiting, enqueueing under
  the durable queue returns the job. For every job, every collaborator and every store on
  which the job body does not throw (a store that answers is one), the mock executor
  returns a job too, its id being the clock reading, and leaves the same store as the
  durable queue followed by the worker's run, the message being completed with the
  response of the run. When the job body throws, the two differ: the mock's \<open>add\<close> rethrows
  the error to its caller and leaves the store of that single attempt, while the worker
  of the durable queue goes on from that very store with the attempts that remain.
\<close>

theorem fallback_parity:
  assumes "q_faults b = []" and "q_waiting b = []"
  shows "(faults (pool w) = [] \<longrightarrow> (\<exists>r. fst (processGeminiJob g d (pool w)) = Inr r))
       \<and> (\<forall>r. fst (processGeminiJob g d (pool w)) = Inr r \<longrightarrow>
            fst (addGeminiJob g d (w\<lparr>geminiQueue := Some MockQueue\<rparr>))
              = Inr \<lparr>job_id = string_of_nat (clock w), data = d\<rparr>
          \<and> fst (addGeminiJob g d (w\<lparr>geminiQueue := Some (Durable b)\<rparr>))
              = Inr \<lparr>job_id = string_of_nat (q_next_id b), data = d\<rparr>
          \<and> pool (snd (addGeminiJob g d (w\<lparr>geminiQueue := Some MockQueue\<rparr>)))
              = pool (worker_run g (snd (addGeminiJob g d (w\<lparr>geminiQueue := Some (Durable b)\<rparr>))))
          \<and> (\<forall>m \<in> set (messages (pool (snd (addGeminiJob g d
                                              (w\<lparr>geminiQueue := Some MockQueue\<rparr>))))).
                msg_id m = messageId d \<longrightarrow>
                msg_status m = Completed \<and> msg_gemini_response m = Some (response r)
                \<and> msg_content m = response r))
       \<and> (\<forall>e. fst (processGeminiJob g d (pool w)) = Inl e \<longrightarrow>
            fst (addGeminiJob g d (w\<lparr>geminiQueue := Some MockQueue\<rparr>)) = Inl e
          \<and> fst (addGeminiJob g d (w\<lparr>geminiQueue := Some (Durable b)\<rparr>))
              = Inr \<lparr>job_id = string_of_nat (q_next_id b), data = d\<rparr>
          \<and> pool (snd (addGeminiJob g d (w\<lparr>geminiQueue := Some MockQueue\<rparr>)))
              = snd (processGeminiJob g d (pool w))
          \<and> pool (worker_run g (snd (addGeminiJob g d (w\<lparr>geminiQueue := Some (Durable b)\<rparr>))))
              = snd (snd (run_job (job_attempts - 2) g d
                            (pool (snd (addGeminiJob g d (w\<lparr>geminiQueue := Some MockQueue\<rparr>)))))))"
proof -
  let ?j = "\<lparr>job_id = string_of_nat (q_next_id b), data = d\<rparr>"
  have du: "addGeminiJob g d (w\<lparr>geminiQueue := Some (Durable b)\<rparr>)
          = (Inr ?j,
             w\<lparr>geminiQueue := Some (Durable (b\<lparr>q_waiting := [?j],
                                               q_next_id := Suc (q_next_id b)\<rparr>))\<rparr>)"
    using assms by (simp add: addGeminiJob_def queue_add_def queue_call_def bull_add_def Let_def)
  have wr: "pool (worker_run g (snd (addGeminiJob g d (w\<lparr>geminiQueue := Some (Durable b)\<rparr>))))
          = snd (snd (run_job (job_attempts - 1) g d (pool w)))"
    by (simp add: du worker_run_pool [where js = "[]"])
  have 1: "faults (pool w) = [] \<longrightarrow> (\<exists>r. fst (processGeminiJob g d (pool w)) = Inr r)"
    using available_returns by blast
  have 2: "fst (addGeminiJob g d (w\<lparr>geminiQueue := Some MockQueue\<rparr>))
              = Inr \<lparr>job_id = string_of_nat (clock w), data = d\<rparr>
          \<and> fst (addGeminiJob g d (w\<lparr>geminiQueue := Some (Durable b)\<rparr>)) = Inr ?j
          \<and> pool (snd (addGeminiJob g d (w\<lparr>geminiQueue := Some MockQueue\<rparr>)))
              = pool (worker_run g (snd (addGeminiJob g d (w\<lparr>geminiQueue := Some (Durable b)\<rparr>))))
          \<and> (\<forall>m \<in> set (messages (pool (snd (addGeminiJob g d
                                              (w\<lparr>geminiQueue := Some MockQueue\<rparr>))))).
                msg_id m = messageId d \<longrightarrow>
                msg_status m = Completed \<and> msg_gemini_response m = Some (response r)
                \<and> msg_content m = response r)"
    if r: "fst (processGeminiJob g d (pool w)) = Inr r" for r
  proof -
    obtain p' where p: "processGeminiJob g d (pool w) = (Inr r, p')"
      using r by (cases "processGeminiJob g d (pool w)") simp
    have mk: "addGeminiJob g d (w\<lparr>geminiQueue := Some MockQueue\<rparr>)
          = (Inr \<lparr>job_id = string_of_nat (clock w), data = d\<rparr>,
             w\<lparr>geminiQueue := Some MockQueue, pool := p'\<rparr>)"
      by (simp add: addGeminiJob_def queue_add_def mock_add_def p)
    have a: "pool (snd (addGeminiJob g d (w\<lparr>geminiQueue := Some MockQueue\<rparr>)))
              = pool (worker_run g (snd (addGeminiJob g d (w\<lparr>geminiQueue := Some (Durable b)\<rparr>))))"
      by (simp add: mk wr run_job_returns [OF r] p)
    have b: "\<forall>m \<in> set (messages (pool (snd (addGeminiJob g d
                                              (w\<lparr>geminiQueue := Some MockQueue\<rparr>))))).
                msg_id m = messageId d \<longrightarrow>
                msg_status m = Completed \<and> msg_gemini_response m = Some (response r)
                \<and> msg_content m = response r"
      using success_rows [OF r] by (simp add: mk p)
    from a b show ?thesis by (simp add: mk du)
  qed
  have 3: "fst (addGeminiJob g d (w\<lparr>geminiQueue := Some MockQueue\<rparr>)) = Inl e
          \<and> fst (addGeminiJob g d (w\<lparr>geminiQueue := Some (Durable b)\<rparr>)) = Inr ?j
          \<and> pool (snd (addGeminiJob g d (w\<lparr>geminiQueue := Some MockQueue\<rparr>)))
              = snd (processGeminiJob g d (pool w))
          \<and> pool (worker_run g (snd (addGeminiJob g d (w\<lparr>geminiQueue := Some (Durable b)\<rparr>))))
              = snd (snd (run_job (job_attempts - 2) g d
                            (pool (snd (addGeminiJob g d (w\<lparr>geminiQueue := Some MockQueue\<rparr>))))))"
    if e: "fst (processGeminiJob g d (pool w)) = Inl e" for e
  proof -
    obtain p' where p: "processGeminiJob g d (pool w) = (Inl e, p')"
      using e by (cases "processGeminiJob g d (pool w)") simp
    have mk: "addGeminiJob g d (w\<lparr>geminiQueue := Some MockQueue\<rparr>)
          = (Inl e, w\<lparr>geminiQueue := Some MockQueue, pool := p'\<rparr>)"
      by (simp add: addGeminiJob_def queue_add_def mock_add_def p)
    have n: "job_attempts - 1 = Suc (job_attempts - 2)"
      by (simp add: job_attempts_eq)
    have "snd (snd (run_job (job_attempts - 1) g d (pool w)))
            = snd (snd (run_job (job_attempts - 2) g d p'))"
      unfolding n by (rule run_job_after_throw [OF p])
    with wr
    have "pool (worker_run g (snd (addGeminiJob g d (w\<lparr>geminiQueue := Some (Durable b)\<rparr>))))
            = snd (snd (run_job (job_attempts - 2) g d p'))"
      by simp
    then show ?thesis by (simp add: mk du p)
  qed
  from 1 2 3 show ?thesis by blast
qed

theorem fallback_parity_witness:
  "q_faults ex_bull_empty = [] \<and> q_waiting ex_bull_empty = [] \<and> faults (pool ex_world) = []
   \<and> fst (addGeminiJob gemini_hello ex_job (ex_world\<lparr>geminiQueue := Some MockQueue\<rparr>))
       = Inr \<lparr>job_id = ''1000'', data = ex_job\<rparr>
   \<and> fst (addGeminiJob gemini_hello ex_job (ex_world\<lparr>geminiQueue := Some (Durable ex_bull_empty)\<rparr>))
       = Inr \<lparr>job_id = ''1'', data = ex_job\<rparr>
   \<and> pool (snd (addGeminiJob gemini_hello ex_job (ex_world\<lparr>geminiQueue := Some MockQueue\<rparr>)))
       = pool (worker_run gemini_hello
                (snd (addGeminiJob gemini_hello ex_job
                       (ex_world\<lparr>geminiQueue := Some (Durable ex_bull_empty)\<rparr>))))
   \<and> map msg_status
        (messages (pool (snd (addGeminiJob gemini_hello ex_job
                               (ex_world\<lparr>geminiQueue := Some MockQueue\<rparr>)))))
       = [Completed, Completed]
   \<and> fst (processGeminiJob gemini_hello ex_job (pool ex_fault_world)) = Inl (PgError ''57P01'')
   \<and> fst (addGeminiJob gemini_hello ex_job (ex_fault_world\<lparr>geminiQueue := Some MockQueue\<rparr>))
       = Inl (PgError ''57P01'')
   \<and> pool (snd (addGeminiJob gemini_hello ex_job
                  (ex_fault_world\<lparr>geminiQueue := Some MockQueue\<rparr>)))
       = snd (processGeminiJob gemini_hello ex_job (pool ex_fault_world))
   \<and> pool (worker_run gemini_hello
             (snd (addGeminiJob gemini_hello ex_job
                    (ex_fault_world\<lparr>geminiQueue := Some (Durable ex_bull_empty)\<rparr>))))
       = snd (snd (run_job (job_attempts - 2) gemini_hello ex_job
                     (pool (snd (addGeminiJob gemini_hello ex_job
                                   (ex_fault_world\<lparr>geminiQueue := Some MockQueue\<rparr>))))))"
proof -
  have a: "q_faults ex_bull_empty = []" "q_waiting ex_bull_empty = []"
    by (simp_all add: ex_bull_empty_def)
  have f: "faults (pool ex_world) = []" by (simp add: ex3_defs ex_defs)
  have t: "fst (processGeminiJob gemini_hello ex_job (pool ex_fault_world))
             = Inl (PgError ''57P01'')"
    by (simp add: job_defs ex_defs ex3_defs ex_fault_world_def ex_fault_pool_def)
  have i1: "string_of_nat 1000 = ''1000''" by code_simp
  have i2: "string_of_nat (Suc 0) = ''1''" by code_simp
  have c: "clock ex_world = 1000" "q_next_id ex_bull_empty = 1"
    by (simp_all add: ex3_defs ex_bull_empty_def)
  have v: "map msg_status
        (messages (pool (snd (addGeminiJob gemini_hello ex_job
                               (ex_world\<lparr>geminiQueue := Some MockQueue\<rparr>)))))
       = [Completed, Completed]"
    by (simp add: enqueue_defs job_defs ex_defs ex3_defs)
  from fallback_parity [OF a, of ex_world gemini_hello ex_job] f
  obtain r where r: "fst (processGeminiJob gemini_hello ex_job (pool ex_world)) = Inr r"
    by blast
  from fallback_parity [OF a, of ex_world gemini_hello ex_job] r a f v
  have p1: "fst (addGeminiJob gemini_hello ex_job (ex_world\<lparr>geminiQueue := Some MockQueue\<rparr>))
       = Inr \<lparr>job_id = ''1000'', data = ex_job\<rparr>
   \<and> fst (addGeminiJob gemini_hello ex_job (ex_world\<lparr>geminiQueue := Some (Durable ex_bull_empty)\<rparr>))
       = Inr \<lparr>job_id = ''1'', data = ex_job\<rparr>
   \<and> pool (snd (addGeminiJob gemini_hello ex_job (ex_world\<lparr>geminiQueue := Some MockQueue\<rparr>)))
       = pool (worker_run gemini_hello
                (snd (addGeminiJob gemini_hello ex_job
                       (ex_world\<lparr>geminiQueue := Some (Durable ex_bull_empty)\<rparr>))))"
    by (simp add: i1 i2 c)
  from fallback_parity [OF a, of ex_fault_world gemini_hello ex_job] t
  have p2: "fst (addGeminiJob gemini_hello ex_job (ex_fault_world\<lparr>geminiQueue := Some MockQueue\<rparr>))
       = Inl (PgError ''57P01'')
   \<and> pool (snd (addGeminiJob gemini_hello ex_job
                  (ex_fault_world\<lparr>geminiQueue := Some MockQueue\<rparr>)))
       = snd (processGeminiJob gemini_hello ex_job (pool ex_fault_world))
   \<and> pool (worker_run gemini_hello
             (snd (addGeminiJob gemini_hello ex_job
                    (ex_fault_world\<lparr>geminiQueue := Some (Durable ex_bull_empty)\<rparr>))))
       = snd (snd (run_job (job_attempts - 2) gemini_hello ex_job
                     (pool (snd (addGeminiJob gemini_hello ex_job
                                   (ex_fault_world\<lparr>geminiQueue := Some MockQueue\<rparr>))))))"
    by blast
  from a f v t p1 p2 show ?thesis by blast
qed

end
